theory Spec2Isabelle
  imports Main "HOL-Library.Multiset"
begin

section \<open>JavaScript values used by the handlers\<close>

text \<open>
  Response bodies are JSON documents. An object is kept as an association list, in the
  order the handler writes its fields; a field whose value is \<open>undefined\<close> is not
  written at all, as \<open>JSON.stringify\<close> drops it.
\<close>

datatype json =
    JNull
  | JBool bool
  | JNum int
  | JStr string
  | JArr "json list"
  | JObj "(string \<times> json) list"

text \<open>
  A value caught by a \<open>catch\<close> block or returned in the \<open>error\<close> field of a store
  reply: whether it is an \<open>instanceof Error\<close>, and its \<open>message\<close>.
\<close>

datatype thrown = Thrown (is_Error: bool) (message: string)

text \<open>\<open>!s\<close> for a body field declared \<open>string\<close>: absent or the empty string.\<close>

definition falsy :: "string option \<Rightarrow> bool" where
  "falsy s = (case s of None \<Rightarrow> True | Some v \<Rightarrow> v = [])"

text \<open>\<open>!n\<close> for a body field declared \<open>number\<close>: absent or zero.\<close>

definition falsy_num :: "int option \<Rightarrow> bool" where
  "falsy_num n = (case n of None \<Rightarrow> True | Some v \<Rightarrow> v = 0)"

text \<open>\<open>s.startsWith(p)\<close>.\<close>

definition startsWith :: "string \<Rightarrow> string \<Rightarrow> bool" where
  "startsWith s p = (take (length p) s = p)"

text \<open>\<open>s.split(sep)\<close> for a separator of one character; the result is never empty.\<close>

fun split :: "char \<Rightarrow> string \<Rightarrow> string list" where
  "split sep [] = [[]]"
| "split sep (c # cs) =
     (if c = sep then [] # split sep cs
      else (case split sep cs of [] \<Rightarrow> [[c]] | w # ws \<Rightarrow> (c # w) # ws))"

text \<open>\<open>xs[i]\<close>: \<open>undefined\<close> (here \<open>None\<close>) out of range.\<close>

fun index :: "'a list \<Rightarrow> nat \<Rightarrow> 'a option" where
  "index [] i = None"
| "index (x # xs) 0 = Some x"
| "index (x # xs) (Suc i) = index xs i"

text \<open>\<open>xs.pop()\<close>, the value it returns: the last element, \<open>undefined\<close> on an empty array.\<close>

fun pop :: "'a list \<Rightarrow> 'a option" where
  "pop [] = None"
| "pop [x] = Some x"
| "pop (x # y # ys) = pop (y # ys)"

text \<open>
  A string is kept as the bytes of its UTF-8 encoding. Splitting at an ASCII separator,
  testing an ASCII prefix and \<open>includes\<close> read the same on these bytes as on the
  characters. \<open>s.toLowerCase()\<close> is the JavaScript runtime's and is not written out:
  it is a function of the environment below.
\<close>

text \<open>\<open>s.includes(q)\<close>: \<open>q\<close> occurs in \<open>s\<close> as a contiguous run.\<close>

fun includes_str :: "string \<Rightarrow> string \<Rightarrow> bool" where
  "includes_str [] q = (q = [])"
| "includes_str (c # cs) q = (take (length q) (c # cs) = q \<or> includes_str cs q)"

text \<open>A number inside a template literal: its decimal digits.\<close>

fun digits :: "nat \<Rightarrow> string" where
  "digits n =
     (if n < 10 then [''0123456789'' ! n]
      else digits (n div 10) @ [''0123456789'' ! (n mod 10)])"

declare digits.simps [simp del]

text \<open>A string inside a template literal; \<open>undefined\<close> prints as the word.\<close>

definition template :: "string option \<Rightarrow> string" where
  "template s = (case s of None \<Rightarrow> ''undefined'' | Some v \<Rightarrow> v)"

section \<open>What a handler leaves behind\<close>

text \<open>
  A handler sends at most one response (\<open>res.status(s).json(b)\<close>; \<open>res.json(b)\<close> sends
  status 200) and may hand a caught value to the framework with \<open>next(error)\<close>.
\<close>

record outcome =
  sent :: "(nat \<times> json) option"
  passed :: "thrown option"

definition respond :: "nat \<Rightarrow> json \<Rightarrow> outcome" where
  "respond s b = \<lparr>sent = Some (s, b), passed = None\<rparr>"

definition status_of :: "outcome \<Rightarrow> nat option" where
  "status_of out = map_option fst (sent out)"

definition body_of :: "outcome \<Rightarrow> json option" where
  "body_of out = map_option snd (sent out)"

section \<open>The external store\<close>

text \<open>
  Modelled from the spec: the Credential Store, that is the hosted database and file
  storage the handlers reach through the client of \<open>lib/supabase\<close>, which is not among
  the source files. Section 2: it "persists user records (email, password hash, profile
  fields) and tender/application rows; queried via a generic request/response
  data-access interface (select/insert/update with equality and ordering filters)";
  section 5: "any error is surfaced immediately". The tables are
  lists of rows; a query names its table and operation; \<open>outage\<close> says which queries the
  service answers with an \<open>error\<close> instead of data; \<open>queries\<close> records every query sent,
  oldest first. The database fills \<open>id\<close> and \<open>created_at\<close> of a new row itself: the
  identifier from \<open>mk_id\<close> and a running number, the timestamp from its own clock.
  \<open>several_rows\<close> is the error the client library reports when a query that asks for
  one row finds more. \<open>condition c\<close> is what the database makes of one filter condition
  \<open>column.operator.value\<close> on the tenders table: the test it applies to a row, or
  \<open>None\<close> when \<open>c\<close> is no condition to it; \<open>malformed\<close> is the error it then answers.
\<close>

datatype table = Users | Tenders | Applications | Logos

datatype operation = Select | Insert | Update | Upload

record user_row =
  u_id :: string
  u_name :: string
  u_email :: string
  u_password :: string
  u_company_name :: string
  u_industry :: string
  u_industry_description :: string
  u_logo :: string

record tender_row =
  t_id :: string
  t_title :: string
  t_description :: string
  t_budget :: int
  t_deadline :: string
  t_creator_id :: string
  t_created_at :: nat

record application_row =
  a_id :: string
  a_tender_id :: string
  a_applicant_id :: string
  a_proposal_text :: string
  a_status :: "string option"
  a_created_at :: nat

record store =
  users :: "user_row list"
  tenders :: "tender_row list"
  applications :: "application_row list"
  objects :: "(string \<times> string) list"
  outage :: "table \<Rightarrow> operation \<Rightarrow> thrown option"
  queries :: "(table \<times> operation) list"
  mk_id :: "nat \<Rightarrow> string"
  serial :: nat
  db_clock :: nat
  several_rows :: thrown
  condition :: "string \<Rightarrow> (tender_row \<Rightarrow> bool) option"
  malformed :: thrown

text \<open>Modelled from the spec: a request to the store; every query sent is recorded.\<close>

definition touch :: "store \<Rightarrow> table \<Rightarrow> operation \<Rightarrow> store" where
  "touch st tb opn = st\<lparr>queries := queries st @ [(tb, opn)]\<rparr>"

text \<open>
  Modelled from the spec: \<open>.from(tb).select(..)\<close> with its filters, a select of the
  data-access interface: the rows that satisfy the filters, or the error.
\<close>

definition select_where ::
  "store \<Rightarrow> table \<Rightarrow> 'r list \<Rightarrow> ('r \<Rightarrow> bool) \<Rightarrow> (thrown + 'r list) \<times> store" where
  "select_where st tb rows p =
     ((case outage st tb Select of Some e \<Rightarrow> Inl e | None \<Rightarrow> Inr (filter p rows)),
      touch st tb Select)"

text \<open>
  Modelled from the spec: \<open>.or(filters)\<close>, the store-layer match of section 4.4. The
  filter string is a list of conditions \<open>column.operator.value\<close> separated by commas,
  as the search handler writes its two; a row passes when one of the conditions holds.
  The store answers with an error when a part between two commas is no condition.
\<close>

definition or_filter :: "store \<Rightarrow> string \<Rightarrow> thrown + (tender_row \<Rightarrow> bool)" where
  "or_filter st filters =
     (let conds = map (condition st) (split CHR '','' filters)
      in if list_ex (\<lambda>c. c = None) conds then Inl (malformed st)
         else Inr (\<lambda>r. list_ex (\<lambda>c. case c of None \<Rightarrow> False | Some test \<Rightarrow> test r) conds))"

text \<open>
  Modelled from the spec: a select on the tenders table with its other filters and an
  \<open>.or(filters)\<close>: the rows that satisfy both, or the error.
\<close>

definition select_or ::
  "store \<Rightarrow> (tender_row \<Rightarrow> bool) \<Rightarrow> string \<Rightarrow> (thrown + tender_row list) \<times> store" where
  "select_or st p filters =
     ((case outage st Tenders Select of
         Some e \<Rightarrow> Inl e
       | None \<Rightarrow>
           (case or_filter st filters of
              Inl e \<Rightarrow> Inl e
            | Inr passes \<Rightarrow> Inr (filter (\<lambda>r. p r \<and> passes r) (tenders st)))),
      touch st Tenders Select)"

text \<open>
  Modelled from the spec: \<open>.order(col, { ascending: false })\<close>, the ordering filter:
  the rows by descending \<open>col\<close>.
\<close>

definition order_desc :: "('r \<Rightarrow> nat) \<Rightarrow> (thrown + 'r list) \<times> store \<Rightarrow> (thrown + 'r list) \<times> store" where
  "order_desc col q =
     (case fst q of Inl e \<Rightarrow> (Inl e, snd q) | Inr rs \<Rightarrow> (Inr (rev (sort_key col rs)), snd q))"

text \<open>
  Modelled from the spec: \<open>.maybeSingle()\<close>, by which a handler resolves one resource by
  id or email: no row is \<open>null\<close>, one row is that row, several rows are an error of
  the client library.
\<close>

definition maybeSingle :: "(thrown + 'r list) \<times> store \<Rightarrow> (thrown + 'r option) \<times> store" where
  "maybeSingle q =
     (case fst q of
        Inl e \<Rightarrow> (Inl e, snd q)
      | Inr [] \<Rightarrow> (Inr None, snd q)
      | Inr [r] \<Rightarrow> (Inr (Some r), snd q)
      | Inr (r # r' # rs) \<Rightarrow> (Inl (several_rows (snd q)), snd q))"

text \<open>
  Modelled from the spec: \<open>.insert([row])\<close>, an insert of the data-access interface: the
  error, or the table with the new row.
\<close>

definition insert_tender ::
  "store \<Rightarrow> string \<Rightarrow> string \<Rightarrow> int \<Rightarrow> string \<Rightarrow> string \<Rightarrow> thrown option \<times> store" where
  "insert_tender st title description budget deadline creator_id =
     (case outage st Tenders Insert of
        Some e \<Rightarrow> (Some e, touch st Tenders Insert)
      | None \<Rightarrow>
          (None,
           touch (st\<lparr>tenders := tenders st @
                    [\<lparr>t_id = mk_id st (serial st), t_title = title, t_description = description,
                      t_budget = budget, t_deadline = deadline, t_creator_id = creator_id,
                      t_created_at = db_clock st\<rparr>],
                  serial := Suc (serial st)\<rparr>) Tenders Insert))"

text \<open>
  Modelled from the spec: the insert of an application. The handler gives no \<open>status\<close>,
  so the column keeps its default (section 3: pending is the "implicit default"), read
  back as \<open>null\<close> here.
\<close>

definition insert_application ::
  "store \<Rightarrow> string \<Rightarrow> string \<Rightarrow> string \<Rightarrow> thrown option \<times> store" where
  "insert_application st tender_id applicant_id proposal_text =
     (case outage st Applications Insert of
        Some e \<Rightarrow> (Some e, touch st Applications Insert)
      | None \<Rightarrow>
          (None,
           touch (st\<lparr>applications := applications st @
                    [\<lparr>a_id = mk_id st (serial st), a_tender_id = tender_id,
                      a_applicant_id = applicant_id, a_proposal_text = proposal_text,
                      a_status = None, a_created_at = db_clock st\<rparr>],
                  serial := Suc (serial st)\<rparr>) Applications Insert))"

text \<open>
  Modelled from the spec: \<open>.insert([row]).select().single()\<close>: the error, or the row as
  the database stored it.
\<close>

definition insert_user ::
  "store \<Rightarrow> string \<Rightarrow> string \<Rightarrow> string \<Rightarrow> string \<Rightarrow> string \<Rightarrow> string \<Rightarrow> string \<Rightarrow>
   (thrown + user_row) \<times> store" where
  "insert_user st name email password company_name industry industry_description logo =
     (case outage st Users Insert of
        Some e \<Rightarrow> (Inl e, touch st Users Insert)
      | None \<Rightarrow>
          (let row = \<lparr>u_id = mk_id st (serial st), u_name = name, u_email = email,
                       u_password = password, u_company_name = company_name,
                       u_industry = industry, u_industry_description = industry_description,
                       u_logo = logo\<rparr>
           in (Inr row,
               touch (st\<lparr>users := users st @ [row], serial := Suc (serial st)\<rparr>) Users Insert)))"

text \<open>
  Modelled from the spec: \<open>.from('applications').update({ status }).eq('id', appId)\<close>, an
  update of the data-access interface: the error, or the status of the rows with that id
  set.
\<close>

definition update_status :: "store \<Rightarrow> string \<Rightarrow> string \<Rightarrow> thrown option \<times> store" where
  "update_status st status appId =
     (case outage st Applications Update of
        Some e \<Rightarrow> (Some e, touch st Applications Update)
      | None \<Rightarrow>
          (None,
           touch (st\<lparr>applications :=
                    map (\<lambda>a. if a_id a = appId then a\<lparr>a_status := Some status\<rparr> else a)
                      (applications st)\<rparr>) Applications Update))"

text \<open>
  Modelled from the spec: \<open>storage.from('logos').upload(path, buffer, ..)\<close>, the upload
  to blob storage of section 4.3: the error, or the bucket with the new object.
\<close>

definition upload :: "store \<Rightarrow> string \<Rightarrow> string \<Rightarrow> thrown option \<times> store" where
  "upload st path buffer =
     (case outage st Logos Upload of
        Some e \<Rightarrow> (Some e, touch st Logos Upload)
      | None \<Rightarrow> (None, touch (st\<lparr>objects := objects st @ [(path, buffer)]\<rparr>) Logos Upload))"

section \<open>The process environment and the libraries\<close>

text \<open>
  \<open>JWT_SECRET\<close> and \<open>NODE_ENV\<close> of the process, the password hashing library, the public
  address the storage service gives a path, \<open>String.prototype.toLowerCase\<close> of the
  JavaScript runtime, and the part of the token library the Token
  Service below leaves open: the keyed signature \<open>mac\<close> and the compact encoding of a
  token as a string (\<open>enc\<close>) with its parser (\<open>dec\<close>).
\<close>

record auth_user =
  userId :: string
  email :: string

record token =
  tk_user :: auth_user
  tk_iat :: nat
  tk_exp :: nat
  tk_sig :: string

record env =
  JWT_SECRET :: string
  NODE_ENV :: "string option"
  bcrypt_hash :: "string \<Rightarrow> nat \<Rightarrow> string"
  bcrypt_compare :: "string \<Rightarrow> string \<Rightarrow> bool"
  publicUrl :: "string \<Rightarrow> string"
  toLowerCase :: "string \<Rightarrow> string"
  mac :: "string \<Rightarrow> auth_user \<times> nat \<times> nat \<Rightarrow> string"
  enc :: "token \<Rightarrow> string"
  dec :: "string \<Rightarrow> token option"

text \<open>
  Modelled from the spec: the Token Service, that is \<open>jwt.sign\<close> and \<open>jwt.verify\<close> of the
  token library, which is not among the source files. Section 4.1: issue "produces a
  signed, tamper-evident token encoding {userId, email} plus issuance and expiry
  timestamps; expiry = issuance + 1 hour"; verify "checks signature validity and that the
  current time is before expiry", and fails otherwise. Time is read in whole seconds,
  the unit of a token's timestamps; \<open>expiresIn\<close> is the lifetime in seconds.
\<close>

definition mk_token :: "env \<Rightarrow> nat \<Rightarrow> auth_user \<Rightarrow> string \<Rightarrow> nat \<Rightarrow> token" where
  "mk_token e now payload secret expiresIn =
     \<lparr>tk_user = payload, tk_iat = now, tk_exp = now + expiresIn,
      tk_sig = mac e secret (payload, now, now + expiresIn)\<rparr>"

text \<open>
  Modelled from the spec: \<open>jwt.sign(payload, secret, { expiresIn })\<close>, the Token Service's
  issue, read at time \<open>now\<close>.
\<close>

definition jwt_sign :: "env \<Rightarrow> nat \<Rightarrow> auth_user \<Rightarrow> string \<Rightarrow> nat \<Rightarrow> string" where
  "jwt_sign e now payload secret expiresIn = enc e (mk_token e now payload secret expiresIn)"

text \<open>
  Modelled from the spec: \<open>jwt.verify(token, secret)\<close>, the Token Service's verify, read
  at time \<open>now\<close>; \<open>None\<close> is the exception it throws. A token that is \<open>undefined\<close>, does
  not parse, has another signature, or has reached its expiry fails.
\<close>

definition jwt_verify :: "env \<Rightarrow> nat \<Rightarrow> string option \<Rightarrow> string \<Rightarrow> auth_user option" where
  "jwt_verify e now tok secret =
     (case tok of
        None \<Rightarrow> None
      | Some s \<Rightarrow>
          (case dec e s of
             None \<Rightarrow> None
           | Some t \<Rightarrow>
               if tk_sig t = mac e secret (tk_user t, tk_iat t, tk_exp t) \<and> now < tk_exp t
               then Some (tk_user t)
               else None))"

text \<open>\<open>expiresIn: '1h'\<close>, in seconds.\<close>

definition one_hour :: nat where
  "one_hour = 60 * 60"

text \<open>The value of a body field after the presence check has found it.\<close>

definition val :: "string option \<Rightarrow> string" where
  "val s = (case s of None \<Rightarrow> [] | Some v \<Rightarrow> v)"

definition num :: "int option \<Rightarrow> int" where
  "num n = (case n of None \<Rightarrow> 0 | Some v \<Rightarrow> v)"

section \<open>authMiddleware: verifyJWT\<close>

text \<open>
  The middleware either answers the request itself, or sets \<open>req.user\<close> to the decoded
  token and calls \<open>next()\<close>, which runs the route's handler.
\<close>

datatype gate = Rejected outcome | Admitted auth_user

definition verifyJWT :: "env \<Rightarrow> nat \<Rightarrow> string option \<Rightarrow> gate" where
  "verifyJWT e now authorization =
     (case authorization of
        None \<Rightarrow> Rejected (respond 401 (JObj [(''message'', JStr ''Missing token'')]))
      | Some authHeader \<Rightarrow>
          if authHeader = [] \<or> \<not> startsWith authHeader ''Bearer ''
          then Rejected (respond 401 (JObj [(''message'', JStr ''Missing token'')]))
          else
            (let token = index (split CHR '' '' authHeader) 1
             in case jwt_verify e now token (JWT_SECRET e) of
                  Some decoded \<Rightarrow> Admitted decoded
                | None \<Rightarrow>
                    Rejected (respond 403 (JObj [(''message'', JStr ''Invalid or expired token'')]))))"

text \<open>A route registered as \<open>router.METHOD(path, verifyJWT, handler)\<close>.\<close>

definition protected ::
  "env \<Rightarrow> nat \<Rightarrow> string option \<Rightarrow> (auth_user \<Rightarrow> store \<Rightarrow> outcome \<times> store) \<Rightarrow> store \<Rightarrow>
   outcome \<times> store" where
  "protected e now authorization handler st =
     (case verifyJWT e now authorization of
        Rejected out \<Rightarrow> (out, st)
      | Admitted user \<Rightarrow> handler user st)"

section \<open>routes/auth\<close>

record upload_file =
  originalname :: string
  buffer :: string
  mimetype :: string

record signup_body =
  s_name :: "string option"
  s_email :: "string option"
  s_password :: "string option"
  s_company_name :: "string option"
  s_industry :: "string option"
  s_industry_description :: "string option"

definition signup_catch :: "thrown \<Rightarrow> outcome" where
  "signup_catch error =
     (if is_Error error
      then \<lparr>sent = Some (500, JObj [(''error'', JStr ''ServerError''),
                                     (''message'', JStr (message error))]),
            passed = Some error\<rparr>
      else \<lparr>sent = Some (500, JObj [(''error'', JStr ''UnknownServerError''),
                                     (''message'', JStr ''Something went wrong'')]),
            passed = Some error\<rparr>)"

definition signupHandler ::
  "env \<Rightarrow> nat \<Rightarrow> signup_body \<Rightarrow> upload_file option \<Rightarrow> store \<Rightarrow> outcome \<times> store" where
  "signupHandler e now_ms b req_file st =
     (if falsy (s_name b) \<or> falsy (s_email b) \<or> falsy (s_password b) \<or>
         falsy (s_company_name b) \<or> falsy (s_industry b) \<or> falsy (s_industry_description b)
      then (respond 400 (JObj [(''error'', JStr ''ValidationError''),
                               (''message'', JStr ''All fields are required'')]), st)
      else
        (let (existingUser, st1) =
               maybeSingle (select_where st Users (users st) (\<lambda>u. u_email u = val (s_email b)))
         in case existingUser of
              Inl checkError \<Rightarrow> (signup_catch checkError, st1)
            | Inr (Some u) \<Rightarrow>
                (respond 409 (JObj [(''error'', JStr ''UserExistsError''),
                                    (''message'', JStr ''User with this email already exists'')]),
                 st1)
            | Inr None \<Rightarrow>
                (let (uploaded, st2) =
                       (case req_file of
                          None \<Rightarrow> (Inr [], st1)
                        | Some f \<Rightarrow>
                            (let fileExt = pop (split CHR ''.'' (originalname f));
                                 filePath = ''logos/'' @ digits now_ms @ ''.'' @ template fileExt;
                                 (uploadError, st') = upload st1 filePath (buffer f)
                             in case uploadError of
                                  Some err \<Rightarrow> (Inl err, st')
                                | None \<Rightarrow> (Inr (publicUrl e filePath), st')))
                 in case uploaded of
                      Inl uploadError \<Rightarrow> (signup_catch uploadError, st2)
                    | Inr logoUrl \<Rightarrow>
                        (let hashedPassword = bcrypt_hash e (val (s_password b)) 10;
                             (created, st3) =
                               insert_user st2 (val (s_name b)) (val (s_email b)) hashedPassword
                                 (val (s_company_name b)) (val (s_industry b))
                                 (val (s_industry_description b)) logoUrl
                         in case created of
                              Inl insertError \<Rightarrow> (signup_catch insertError, st3)
                            | Inr createdUser \<Rightarrow>
                                (respond 201
                                   (JObj [(''success'', JBool True),
                                          (''data'',
                                           JObj [(''id'', JStr (u_id createdUser)),
                                                 (''name'', JStr (u_name createdUser)),
                                                 (''email'', JStr (u_email createdUser)),
                                                 (''company_name'', JStr (u_company_name createdUser)),
                                                 (''industry'', JStr (u_industry createdUser)),
                                                 (''industry_description'',
                                                  JStr (u_industry_description createdUser)),
                                                 (''logo'', JStr (u_logo createdUser))])]),
                                 st3)))))"

record login_body =
  l_email :: "string option"
  l_password :: "string option"

definition login_catch :: "env \<Rightarrow> thrown \<Rightarrow> outcome" where
  "login_catch e error =
     (if is_Error error
      then respond 500
             (JObj ([(''error'', JStr ''ServerError''),
                     (''message'', JStr ''An unexpected error occurred'')] @
                    (if NODE_ENV e = Some ''development''
                     then [(''details'', JStr (message error))] else [])))
      else \<lparr>sent = None, passed = Some error\<rparr>)"

definition loginHandler :: "env \<Rightarrow> nat \<Rightarrow> login_body \<Rightarrow> store \<Rightarrow> outcome \<times> store" where
  "loginHandler e now b st =
     (if falsy (l_email b) \<or> falsy (l_password b)
      then (respond 400 (JObj [(''error'', JStr ''ValidationError''),
                               (''message'', JStr ''Email and password are required'')]), st)
      else
        (let (found, st1) =
               maybeSingle (select_where st Users (users st) (\<lambda>u. u_email u = val (l_email b)))
         in case found of
              Inl fetchError \<Rightarrow> (login_catch e fetchError, st1)
            | Inr None \<Rightarrow>
                (respond 401 (JObj [(''error'', JStr ''AuthError''),
                                    (''message'', JStr ''Invalid email or password'')]), st1)
            | Inr (Some user) \<Rightarrow>
                (let isPasswordMatch = bcrypt_compare e (val (l_password b)) (u_password user)
                 in if \<not> isPasswordMatch
                    then (respond 401 (JObj [(''error'', JStr ''AuthError''),
                                             (''message'', JStr ''Invalid email or password'')]),
                          st1)
                    else
                      (let token = jwt_sign e now \<lparr>userId = u_id user, email = u_email user\<rparr>
                                     (JWT_SECRET e) one_hour
                       in (respond 200 (JObj [(''success'', JBool True), (''token'', JStr token)]),
                           st1)))))"

section \<open>routes/dashboard\<close>

text \<open>
  \<open>select('id, name, email, company_name, industry, industry_description, logo')\<close>: the
  columns of a user the reply carries.
\<close>

definition user_public :: "user_row \<Rightarrow> json" where
  "user_public u =
     JObj [(''id'', JStr (u_id u)), (''name'', JStr (u_name u)), (''email'', JStr (u_email u)),
           (''company_name'', JStr (u_company_name u)), (''industry'', JStr (u_industry u)),
           (''industry_description'', JStr (u_industry_description u)),
           (''logo'', JStr (u_logo u))]"

definition meHandler :: "auth_user \<Rightarrow> store \<Rightarrow> outcome \<times> store" where
  "meHandler requester st =
     (let (found, st1) =
            maybeSingle (select_where st Users (users st) (\<lambda>u. u_id u = userId requester))
      in case found of
           Inr (Some user) \<Rightarrow>
             (respond 200 (JObj [(''success'', JBool True), (''user'', user_public user)]), st1)
         | _ \<Rightarrow> (respond 404 (JObj [(''message'', JStr ''User not found'')]), st1))"

section \<open>routes/tenders\<close>

record tender_body =
  b_title :: "string option"
  b_description :: "string option"
  b_budget :: "int option"
  b_deadline :: "string option"

definition createTenderHandler :: "auth_user \<Rightarrow> tender_body \<Rightarrow> store \<Rightarrow> outcome \<times> store" where
  "createTenderHandler requester b st =
     (if falsy (b_title b) \<or> falsy (b_description b) \<or> falsy_num (b_budget b) \<or>
         falsy (b_deadline b)
      then (respond 400 (JObj [(''message'', JStr ''All fields are required'')]), st)
      else
        (let creator_id = userId requester;
             (error, st1) =
               insert_tender st (val (b_title b)) (val (b_description b)) (num (b_budget b))
                 (val (b_deadline b)) creator_id
         in case error of
              Some err \<Rightarrow>
                (respond 500 (JObj [(''error'', JStr ''ServerError''),
                                    (''message'', JStr (message err))]), st1)
            | None \<Rightarrow>
                (respond 201 (JObj [(''success'', JBool True),
                                    (''message'', JStr ''Tender created'')]), st1)))"

text \<open>\<open>select('*')\<close> on the tenders table: every column of the row.\<close>

definition tender_json :: "tender_row \<Rightarrow> json" where
  "tender_json t =
     JObj [(''id'', JStr (t_id t)), (''title'', JStr (t_title t)),
           (''description'', JStr (t_description t)), (''budget'', JNum (t_budget t)),
           (''deadline'', JStr (t_deadline t)), (''creator_id'', JStr (t_creator_id t)),
           (''created_at'', JNum (int (t_created_at t)))]"

text \<open>GET /my\<close>

definition get_my :: "auth_user \<Rightarrow> store \<Rightarrow> outcome \<times> store" where
  "get_my requester st =
     (let (result, st1) =
            order_desc t_created_at
              (select_where st Tenders (tenders st) (\<lambda>t. t_creator_id t = userId requester))
      in case result of
           Inl err \<Rightarrow>
             (respond 500 (JObj [(''error'', JStr ''ServerError''),
                                 (''message'', JStr (message err))]), st1)
         | Inr data \<Rightarrow>
             (respond 200 (JObj [(''success'', JBool True),
                                 (''tenders'', JArr (map tender_json data))]), st1))"

text \<open>GET /others\<close>

definition get_others :: "auth_user \<Rightarrow> store \<Rightarrow> outcome \<times> store" where
  "get_others requester st =
     (let (result, st1) =
            order_desc t_created_at
              (select_where st Tenders (tenders st) (\<lambda>t. t_creator_id t \<noteq> userId requester))
      in case result of
           Inl error \<Rightarrow> (respond 500 (JObj [(''message'', JStr (message error))]), st1)
         | Inr data \<Rightarrow> (respond 200 (JObj [(''tenders'', JArr (map tender_json data))]), st1))"

text \<open>POST /:id/apply\<close>

definition post_apply :: "auth_user \<Rightarrow> string \<Rightarrow> string option \<Rightarrow> store \<Rightarrow> outcome \<times> store" where
  "post_apply requester tender_id proposal_text st =
     (let applicant_id = userId requester
      in if falsy proposal_text \<or> tender_id = [] \<or> applicant_id = []
         then (respond 400 (JObj [(''message'', JStr ''Missing required fields'')]), st)
         else
           (let (error, st1) = insert_application st tender_id applicant_id (val proposal_text)
            in case error of
                 Some err \<Rightarrow> (respond 500 (JObj [(''message'', JStr (message err))]), st1)
               | None \<Rightarrow>
                   (respond 201 (JObj [(''message'', JStr ''Application submitted successfully'')]),
                    st1)))"

text \<open>\<open>select('id, proposal_text, applicant_id, created_at')\<close> on the applications table.\<close>

definition application_json :: "application_row \<Rightarrow> json" where
  "application_json a =
     JObj [(''id'', JStr (a_id a)), (''proposal_text'', JStr (a_proposal_text a)),
           (''applicant_id'', JStr (a_applicant_id a)),
           (''created_at'', JNum (int (a_created_at a)))]"

text \<open>GET /:id/applications\<close>

definition get_applications :: "auth_user \<Rightarrow> string \<Rightarrow> store \<Rightarrow> outcome \<times> store" where
  "get_applications requester tender_id st =
     (let requester_id = userId requester;
          (found, st1) =
            maybeSingle (select_where st Tenders (tenders st) (\<lambda>t. t_id t = tender_id))
      in case found of
           Inr (Some tender) \<Rightarrow>
             if t_creator_id tender \<noteq> requester_id
             then (respond 403 (JObj [(''message'', JStr ''Access denied'')]), st1)
             else
               (let (result, st2) =
                      order_desc a_created_at
                        (select_where st1 Applications (applications st1)
                           (\<lambda>a. a_tender_id a = tender_id))
                in case result of
                     Inl error \<Rightarrow> (respond 500 (JObj [(''message'', JStr (message error))]), st2)
                   | Inr apps \<Rightarrow>
                       (respond 200 (JObj [(''applications'', JArr (map application_json apps))]),
                        st2))
         | _ \<Rightarrow> (respond 403 (JObj [(''message'', JStr ''Tender not found or unauthorized'')]), st1))"

text \<open>PATCH /applications/:id/status\<close>

definition patch_status :: "auth_user \<Rightarrow> string \<Rightarrow> string option \<Rightarrow> store \<Rightarrow> outcome \<times> store" where
  "patch_status requester appId status st =
     (let requester_id = userId requester
      in if status \<notin> set [Some ''accepted'', Some ''rejected'']
         then (respond 400 (JObj [(''message'', JStr ''Invalid status'')]), st)
         else
           (let (fetched, st1) =
                  maybeSingle (select_where st Applications (applications st)
                                 (\<lambda>a. a_id a = appId))
            in case fetched of
                 Inr (Some appRecord) \<Rightarrow>
                   (let (found, st2) =
                          maybeSingle (select_where st1 Tenders (tenders st1)
                                         (\<lambda>t. t_id t = a_tender_id appRecord))
                    in case found of
                         Inr (Some tender) \<Rightarrow>
                           if t_creator_id tender \<noteq> requester_id
                           then (respond 403 (JObj [(''message'', JStr ''Unauthorized'')]), st2)
                           else
                             (let (updateError, st3) = update_status st2 (val status) appId
                              in case updateError of
                                   Some err \<Rightarrow>
                                     (respond 500 (JObj [(''message'', JStr (message err))]), st3)
                                 | None \<Rightarrow>
                                     (respond 200
                                        (JObj [(''success'', JBool True),
                                               (''message'', JStr (''Application '' @ val status))]),
                                      st3))
                       | _ \<Rightarrow> (respond 403 (JObj [(''message'', JStr ''Unauthorized'')]), st2))
               | _ \<Rightarrow> (respond 404 (JObj [(''message'', JStr ''Application not found'')]), st1)))"

text \<open>A nullable text column.\<close>

definition nullable :: "string option \<Rightarrow> json" where
  "nullable s = (case s of None \<Rightarrow> JNull | Some v \<Rightarrow> JStr v)"

text \<open>
  GET /my-applications:
  \<open>select('id, proposal_text, status, created_at, tender_id, tenders(title, deadline)')\<close>,
  the last being the tender the application refers to, or \<open>null\<close>.
\<close>

definition my_application_json :: "tender_row list \<Rightarrow> application_row \<Rightarrow> json" where
  "my_application_json ts a =
     JObj [(''id'', JStr (a_id a)), (''proposal_text'', JStr (a_proposal_text a)),
           (''status'', nullable (a_status a)), (''created_at'', JNum (int (a_created_at a))),
           (''tender_id'', JStr (a_tender_id a)),
           (''tenders'',
            (case find (\<lambda>t. t_id t = a_tender_id a) ts of
               None \<Rightarrow> JNull
             | Some t \<Rightarrow> JObj [(''title'', JStr (t_title t)), (''deadline'', JStr (t_deadline t))]))]"

definition get_my_applications :: "auth_user \<Rightarrow> store \<Rightarrow> outcome \<times> store" where
  "get_my_applications requester st =
     (let applicant_id = userId requester;
          (result, st1) =
            order_desc a_created_at
              (select_where st Applications (applications st)
                 (\<lambda>a. a_applicant_id a = applicant_id))
      in case result of
           Inl error \<Rightarrow> (respond 500 (JObj [(''message'', JStr (message error))]), st1)
         | Inr data \<Rightarrow>
             (respond 200
                (JObj [(''applications'', JArr (map (my_application_json (tenders st)) data))]),
              st1))"

text \<open>
  GET /my-with-applications:
  \<open>select('id, title, description, deadline, budget, applications (id, proposal_text,
  applicant_id, status, created_at)')\<close>.
\<close>

definition tender_with_applications_json :: "application_row list \<Rightarrow> tender_row \<Rightarrow> json" where
  "tender_with_applications_json as t =
     JObj [(''id'', JStr (t_id t)), (''title'', JStr (t_title t)),
           (''description'', JStr (t_description t)), (''deadline'', JStr (t_deadline t)),
           (''budget'', JNum (t_budget t)),
           (''applications'',
            JArr (map (\<lambda>a. JObj [(''id'', JStr (a_id a)),
                                  (''proposal_text'', JStr (a_proposal_text a)),
                                  (''applicant_id'', JStr (a_applicant_id a)),
                                  (''status'', nullable (a_status a)),
                                  (''created_at'', JNum (int (a_created_at a)))])
                    (filter (\<lambda>a. a_tender_id a = t_id t) as)))]"

definition get_my_with_applications :: "auth_user \<Rightarrow> store \<Rightarrow> outcome \<times> store" where
  "get_my_with_applications requester st =
     (let (result, st1) =
            order_desc t_created_at
              (select_where st Tenders (tenders st) (\<lambda>t. t_creator_id t = userId requester))
      in case result of
           Inl error \<Rightarrow> (respond 500 (JObj [(''message'', JStr (message error))]), st1)
         | Inr data \<Rightarrow>
             (respond 200
                (JObj [(''tenders'',
                        JArr (map (tender_with_applications_json (applications st)) data))]),
              st1))"

text \<open>
  GET /search. The query selects \<open>title, description, budget, deadline, creator_id\<close>
  and no joined \<open>users\<close> object, so \<open>tender.users\<close> is \<open>undefined\<close> and the two
  disjuncts of the in-process filter that read it are never true.
\<close>

definition search_json :: "tender_row \<Rightarrow> json" where
  "search_json t =
     JObj [(''title'', JStr (t_title t)), (''description'', JStr (t_description t)),
           (''budget'', JNum (t_budget t)), (''deadline'', JStr (t_deadline t)),
           (''creator_id'', JStr (t_creator_id t))]"

text \<open>\<open>s?.toLowerCase().includes(q)\<close>: \<open>undefined\<close>, which a filter reads as false, when \<open>s\<close> is.\<close>

definition optional_includes :: "env \<Rightarrow> string option \<Rightarrow> string \<Rightarrow> bool" where
  "optional_includes e s q =
     (case s of None \<Rightarrow> False | Some v \<Rightarrow> includes_str (toLowerCase e v) q)"

definition search_filter :: "env \<Rightarrow> string \<Rightarrow> tender_row list \<Rightarrow> tender_row list" where
  "search_filter e query data =
     filter (\<lambda>tender. optional_includes e (Some (t_title tender)) query \<or>
                      optional_includes e (Some (t_description tender)) query \<or>
                      optional_includes e None query \<or>
                      optional_includes e None query) data"

text \<open>
  The handler writes the lowered query string into the filter as it is:
  \<open>`title.ilike.%${query}%,description.ilike.%${query}%`\<close>.
\<close>

definition get_search :: "env \<Rightarrow> auth_user \<Rightarrow> string option \<Rightarrow> store \<Rightarrow> outcome \<times> store" where
  "get_search e requester q st =
     (let query = map_option (toLowerCase e) q;
          requester_id = userId requester
      in if falsy query
         then (respond 400 (JObj [(''message'', JStr ''Search query is required'')]), st)
         else
           (let (result, st1) =
                  order_desc t_created_at
                    (select_or st (\<lambda>t. t_creator_id t \<noteq> requester_id)
                       (''title.ilike.%'' @ val query @ ''%,description.ilike.%'' @ val query @
                        ''%''))
            in case result of
                 Inl error \<Rightarrow> (respond 500 (JObj [(''message'', JStr (message error))]), st1)
               | Inr data \<Rightarrow>
                   (let filtered = search_filter e (val query) data
                    in (respond 200 (JObj [(''tenders'', JArr (map search_json filtered))]),
                        st1))))"

section \<open>The words of the specification\<close>

text \<open>"Ordered by created_at descending".\<close>

definition descending :: "('r \<Rightarrow> nat) \<Rightarrow> 'r list \<Rightarrow> bool" where
  "descending col rs = sorted_wrt (\<lambda>a b. col b \<le> col a) rs"

text \<open>
  The compact encoding carries a token faithfully: it parses back to the token, and has
  no space in it (a space would end the token inside the Authorization header).
\<close>

definition readable :: "env \<Rightarrow> token \<Rightarrow> bool" where
  "readable e t = (dec e (enc e t) = Some t \<and> CHR '' '' \<notin> set (enc e t))"

text \<open>Signup's "all six required fields present", as its presence check reads it.\<close>

definition filled :: "signup_body \<Rightarrow> bool" where
  "filled b =
     (\<not> (falsy (s_name b) \<or> falsy (s_email b) \<or> falsy (s_password b) \<or>
         falsy (s_company_name b) \<or> falsy (s_industry b) \<or> falsy (s_industry_description b)))"

text \<open>The same for the four fields of Create Tender.\<close>

definition tender_filled :: "tender_body \<Rightarrow> bool" where
  "tender_filled b =
     (\<not> (falsy (b_title b) \<or> falsy (b_description b) \<or> falsy_num (b_budget b) \<or>
         falsy (b_deadline b)))"

section \<open>A sample deployment\<close>

text \<open>
  A small environment and store on which the theorems below are exercised. The token
  encoding is \<open>userId|email|iat|exp|signature\<close> with decimal timestamps.
\<close>

definition digit_val :: "char \<Rightarrow> nat option" where
  "digit_val c = map_of (zip ''0123456789'' [0, 1, 2, 3, 4, 5, 6, 7, 8, 9]) c"

fun parse_nat :: "nat \<Rightarrow> string \<Rightarrow> nat option" where
  "parse_nat acc [] = Some acc"
| "parse_nat acc (c # cs) =
     (case digit_val c of None \<Rightarrow> None | Some d \<Rightarrow> parse_nat (10 * acc + d) cs)"

definition sample_enc :: "token \<Rightarrow> string" where
  "sample_enc t =
     userId (tk_user t) @ ''|'' @ email (tk_user t) @ ''|'' @ digits (tk_iat t) @ ''|'' @
     digits (tk_exp t) @ ''|'' @ tk_sig t"

definition sample_dec :: "string \<Rightarrow> token option" where
  "sample_dec s =
     (case split CHR ''|'' s of
        [u, m, i, x, g] \<Rightarrow>
          (case (parse_nat 0 i, parse_nat 0 x) of
             (Some iat, Some exp) \<Rightarrow>
               Some \<lparr>tk_user = \<lparr>userId = u, email = m\<rparr>, tk_iat = iat, tk_exp = exp, tk_sig = g\<rparr>
           | _ \<Rightarrow> None)
      | _ \<Rightarrow> None)"

text \<open>
  The sample runtime lowers ASCII letters, which is what \<open>toLowerCase\<close> does to the
  ASCII text of the samples. The sample database reads \<open>title.ilike.pattern\<close> and
  \<open>description.ilike.pattern\<close>, the pattern matched without regard to (ASCII) case and
  \<open>%\<close> standing for any run of characters, and takes nothing else for a condition.
\<close>

definition ascii_lower :: "char \<Rightarrow> char" where
  "ascii_lower c =
     (case map_of (zip ''ABCDEFGHIJKLMNOPQRSTUVWXYZ'' ''abcdefghijklmnopqrstuvwxyz'') c of
        Some l \<Rightarrow> l
      | None \<Rightarrow> c)"

fun like :: "string \<Rightarrow> string \<Rightarrow> bool" where
  "like [] s = (s = [])"
| "like (p # ps) [] = (p = CHR ''%'' \<and> like ps [])"
| "like (p # ps) (c # cs) =
     (if p = CHR ''%'' then like ps (c # cs) \<or> like (p # ps) cs else p = c \<and> like ps cs)"

definition sample_condition :: "string \<Rightarrow> (tender_row \<Rightarrow> bool) option" where
  "sample_condition c =
     (if startsWith c ''title.ilike.''
      then Some (\<lambda>r. like (map ascii_lower (drop 12 c)) (map ascii_lower (t_title r)))
      else if startsWith c ''description.ilike.''
      then Some (\<lambda>r. like (map ascii_lower (drop 18 c)) (map ascii_lower (t_description r)))
      else None)"

definition env0 :: env where
  "env0 =
     \<lparr>JWT_SECRET = ''s3cret'', NODE_ENV = None,
      bcrypt_hash = (\<lambda>p rounds. ''$2a$'' @ rev p),
      bcrypt_compare = (\<lambda>p h. h = ''$2a$'' @ rev p),
      publicUrl = (\<lambda>path. ''https://cdn.example/'' @ path),
      toLowerCase = map ascii_lower,
      mac = (\<lambda>secret c. rev secret @ userId (fst c) @ digits (snd (snd c))),
      enc = sample_enc, dec = sample_dec\<rparr>"

definition alice :: auth_user where
  "alice = \<lparr>userId = ''u1'', email = ''alice@example.com''\<rparr>"

definition bob :: auth_user where
  "bob = \<lparr>userId = ''u2'', email = ''bob@example.com''\<rparr>"

definition store0 :: store where
  "store0 =
     \<lparr>users =
        [\<lparr>u_id = ''u1'', u_name = ''Alice'', u_email = ''alice@example.com'',
          u_password = ''$2a$1ecila'', u_company_name = ''Acme'', u_industry = ''Building'',
          u_industry_description = ''Roofs'', u_logo = []\<rparr>,
         \<lparr>u_id = ''u2'', u_name = ''Bob'', u_email = ''bob@example.com'',
          u_password = ''$2a$2bob'', u_company_name = ''Bolt'', u_industry = ''Furniture'',
          u_industry_description = ''Chairs'', u_logo = []\<rparr>],
      tenders =
        [\<lparr>t_id = ''t1'', t_title = ''Roof repair'', t_description = ''Fix the leaking hall'',
          t_budget = 5000, t_deadline = ''2025-09-01'', t_creator_id = ''u1'', t_created_at = 10\<rparr>,
         \<lparr>t_id = ''t2'', t_title = ''Office chairs'', t_description = ''Seats for the ROOFTOP bar'',
          t_budget = 900, t_deadline = ''2025-10-01'', t_creator_id = ''u2'', t_created_at = 20\<rparr>,
         \<lparr>t_id = ''t3'', t_title = ''Paint'', t_description = ''Two walls'',
          t_budget = 300, t_deadline = ''2025-11-01'', t_creator_id = ''u1'', t_created_at = 30\<rparr>],
      applications =
        [\<lparr>a_id = ''a1'', a_tender_id = ''t1'', a_applicant_id = ''u2'', a_proposal_text = ''P1'',
          a_status = None, a_created_at = 15\<rparr>],
      objects = [],
      outage = (\<lambda>tb opn. None),
      queries = [],
      mk_id = (\<lambda>n. ''id'' @ digits n),
      serial = 7,
      db_clock = 100,
      several_rows = Thrown False ''JSON object requested, multiple (or no) rows returned'',
      condition = sample_condition,
      malformed = Thrown False ''failed to parse logic tree''\<rparr>"

text \<open>The sample store with a tender of Bob's that has a comma in its title.\<close>

definition store_comma :: store where
  "store_comma =
     store0\<lparr>tenders := tenders store0 @
        [\<lparr>t_id = ''t4'', t_title = ''A,B gutters'', t_description = ''Both sides'',
          t_budget = 700, t_deadline = ''2025-12-01'', t_creator_id = ''u2'',
          t_created_at = 40\<rparr>]\<rparr>"

text \<open>The same store while the service answers every query with an error.\<close>

definition store_down :: store where
  "store_down = store0\<lparr>outage := (\<lambda>tb opn. Some (Thrown True ''service unavailable''))\<rparr>"

text \<open>A signup form no stored user has the email of, and a logo to go with it.\<close>

definition carol_form :: signup_body where
  "carol_form =
     \<lparr>s_name = Some ''Carol'', s_email = Some ''carol@example.com'', s_password = Some ''pw'',
      s_company_name = Some ''Crane'', s_industry = Some ''Lifting'',
      s_industry_description = Some ''Cranes for hire''\<rparr>"

definition carol_logo :: upload_file where
  "carol_logo = \<lparr>originalname = ''logo.final.png'', buffer = ''PNG'', mimetype = ''image/png''\<rparr>"

text \<open>The sample store while one kind of query fails and every other is answered.\<close>

definition failing :: "table \<Rightarrow> operation \<Rightarrow> store" where
  "failing tb opn =
     store0\<lparr>outage := (\<lambda>tb' opn'. if tb' = tb \<and> opn' = opn
                                    then Some (Thrown True ''service unavailable'')
                                    else None)\<rparr>"

definition roof_tender :: tender_body where
  "roof_tender =
     \<lparr>b_title = Some ''New roof'', b_description = Some ''Tiles and gutters'',
      b_budget = Some 12000, b_deadline = Some ''2026-03-01''\<rparr>"

section \<open>Helper lemmas\<close>

lemma falsy_simps [simp]:
  "falsy None" "falsy (Some s) = (s = [])"
  by (simp_all add: falsy_def)

lemma falsy_num_simps [simp]:
  "falsy_num None" "falsy_num (Some n) = (n = 0)"
  by (simp_all add: falsy_num_def)

lemma val_Some [simp]: "val (Some s) = s"
  by (simp add: val_def)

lemma touch_fields [simp]:
  "users (touch st tb opn) = users st"
  "tenders (touch st tb opn) = tenders st"
  "applications (touch st tb opn) = applications st"
  "objects (touch st tb opn) = objects st"
  "outage (touch st tb opn) = outage st"
  "queries (touch st tb opn) = queries st @ [(tb, opn)]"
  "several_rows (touch st tb opn) = several_rows st"
  "condition (touch st tb opn) = condition st"
  "malformed (touch st tb opn) = malformed st"
  "mk_id (touch st tb opn) = mk_id st"
  "serial (touch st tb opn) = serial st"
  "db_clock (touch st tb opn) = db_clock st"
  by (simp_all add: touch_def)

lemma index_1: "index (x # y # ys) 1 = Some y"
  by (simp add: numeral_eq_Suc)

lemma split_without_separator: "sep \<notin> set s \<Longrightarrow> split sep s = [s]"
  by (induction s) auto

lemma bearer_token:
  "CHR '' '' \<notin> set tok \<Longrightarrow> index (split CHR '' '' (''Bearer '' @ tok)) 1 = Some tok"
  by (simp add: split_without_separator index_1)

lemma select_where_ok:
  "outage st tb Select = None \<Longrightarrow>
   select_where st tb rows p = (Inr (filter p rows), touch st tb Select)"
  by (simp add: select_where_def)

lemma select_where_fail:
  "outage st tb Select = Some err \<Longrightarrow>
   select_where st tb rows p = (Inl err, touch st tb Select)"
  by (simp add: select_where_def)

lemma maybeSingle_simps:
  "maybeSingle (Inl err, st) = (Inl err, st)"
  "maybeSingle (Inr [], st) = (Inr None, st)"
  "maybeSingle (Inr [r], st) = (Inr (Some r), st)"
  "maybeSingle (Inr (r # r' # rs), st) = (Inl (several_rows st), st)"
  by (simp_all add: maybeSingle_def)

lemma order_desc_simps:
  "order_desc col (Inl err, st) = (Inl err, st)"
  "order_desc col (Inr rs, st) = (Inr (rev (sort_key col rs)), st)"
  by (simp_all add: order_desc_def)

lemma status_of_respond [simp]: "status_of (respond s b) = Some s"
  by (simp add: status_of_def respond_def)

lemma body_of_respond [simp]: "body_of (respond s b) = Some b"
  by (simp add: body_of_def respond_def)

subsection \<open>The sample deployment, evaluated\<close>

lemma env0_fields:
  "JWT_SECRET env0 = ''s3cret''"
  "NODE_ENV env0 = None"
  "dec env0 = sample_dec"
  "enc env0 = sample_enc"
  "mac env0 secret c = rev secret @ userId (fst c) @ digits (snd (snd c))"
  "bcrypt_compare env0 p h = (h = ''$2a$'' @ rev p)"
  "bcrypt_hash env0 p rounds = ''$2a$'' @ rev p"
  "publicUrl env0 path = ''https://cdn.example/'' @ path"
  "toLowerCase env0 = map ascii_lower"
  by (simp_all add: env0_def)

lemma digits_samples:
  "digits 7 = ''7''" "digits 1000 = ''1000''" "digits 1730 = ''1730''" "digits 4600 = ''4600''"
  by (simp_all add: digits.simps)

lemma sample_token:
  "sample_dec ''u1|alice@example.com|1000|4600|terc3su14600'' =
     Some \<lparr>tk_user = alice, tk_iat = 1000, tk_exp = 4600, tk_sig = ''terc3su14600''\<rparr>"
  by (simp add: sample_dec_def digit_val_def alice_def)

lemma sample_token_issued:
  "mk_token env0 1000 alice ''s3cret'' one_hour =
     \<lparr>tk_user = alice, tk_iat = 1000, tk_exp = 4600, tk_sig = ''terc3su14600''\<rparr>"
  "sample_enc \<lparr>tk_user = alice, tk_iat = 1000, tk_exp = 4600, tk_sig = ''terc3su14600''\<rparr> =
     ''u1|alice@example.com|1000|4600|terc3su14600''"
  by (simp_all add: mk_token_def one_hour_def env0_fields digits_samples sample_enc_def alice_def)

lemma store0_fields:
  "outage store0 tb opn = None"
  "map t_id (tenders store0) = [''t1'', ''t2'', ''t3'']"
  "map t_creator_id (tenders store0) = [''u1'', ''u2'', ''u1'']"
  "map a_id (applications store0) = [''a1'']"
  "map u_email (users store0) = [''alice@example.com'', ''bob@example.com'']"
  by (simp_all add: store0_def)

section \<open>Create Tender\<close>

text \<open>
  C10. Create Tender answers a request whose budget is the number 0 with HTTP 400 and the
  message "All fields are required", whatever the other fields and whoever the caller,
  and sends no query to the store: the store, its tenders and its query record included,
  is exactly as before.
\<close>

theorem create_tender_zero_budget_rejected:
  "createTenderHandler requester (b\<lparr>b_budget := Some 0\<rparr>) st =
     (respond 400 (JObj [(''message'', JStr ''All fields are required'')]), st)"
  by (simp add: createTenderHandler_def)

section \<open>The Auth Gateway\<close>

text \<open>
  C2. On a protected route, a request with no Authorization header, or with one that
  does not start with "Bearer ", is answered 401 and the store is as before whatever the
  handler is: the handler is not run. A header with the prefix whose token (the second
  part of the header split at spaces) fails verification is answered 403, again without
  the handler. When verification succeeds, the decoded {userId, email} becomes the
  request's user and the route's answer is the handler's answer for that user.
\<close>

theorem verifyJWT_gate:
  "((authorization = None \<or> (\<exists>h. authorization = Some h \<and> \<not> startsWith h ''Bearer '')) \<longrightarrow>
      verifyJWT e now authorization =
        Rejected (respond 401 (JObj [(''message'', JStr ''Missing token'')])) \<and>
      protected e now authorization handler st =
        (respond 401 (JObj [(''message'', JStr ''Missing token'')]), st)) \<and>
   (startsWith hdr ''Bearer '' \<and>
    jwt_verify e now (index (split CHR '' '' hdr) 1) (JWT_SECRET e) = None \<longrightarrow>
      verifyJWT e now (Some hdr) =
        Rejected (respond 403 (JObj [(''message'', JStr ''Invalid or expired token'')])) \<and>
      protected e now (Some hdr) handler st =
        (respond 403 (JObj [(''message'', JStr ''Invalid or expired token'')]), st)) \<and>
   (startsWith hdr ''Bearer '' \<and>
    jwt_verify e now (index (split CHR '' '' hdr) 1) (JWT_SECRET e) = Some user \<longrightarrow>
      verifyJWT e now (Some hdr) = Admitted user \<and>
      protected e now (Some hdr) handler st = handler user st)"
  by (auto simp: verifyJWT_def protected_def startsWith_def)

theorem verifyJWT_gate_witness:
  "protected env0 2000 None get_my store0 =
     (respond 401 (JObj [(''message'', JStr ''Missing token'')]), store0) \<and>
   protected env0 2000 (Some ''Basic dTE6cHc='') get_my store0 =
     (respond 401 (JObj [(''message'', JStr ''Missing token'')]), store0) \<and>
   protected env0 2000 (Some ''Bearer garbage'') get_my store0 =
     (respond 403 (JObj [(''message'', JStr ''Invalid or expired token'')]), store0) \<and>
   protected env0 2000 (Some ''Bearer u1|alice@example.com|1000|4600|terc3su14600'') get_my store0 =
     get_my alice store0"
proof -
  have ok: "jwt_verify env0 2000
              (index (split CHR '' '' ''Bearer u1|alice@example.com|1000|4600|terc3su14600'') 1)
              (JWT_SECRET env0) = Some alice"
    using bearer_token [of "''u1|alice@example.com|1000|4600|terc3su14600''"]
    by (simp add: jwt_verify_def env0_fields sample_token digits_samples alice_def)
  have bad: "jwt_verify env0 2000 (index (split CHR '' '' ''Bearer garbage'') 1)
               (JWT_SECRET env0) = None"
    using bearer_token [of "''garbage''"]
    by (simp add: jwt_verify_def env0_fields sample_dec_def)
  note gate = verifyJWT_gate [where e = env0 and now = 2000 and handler = get_my and st = store0]
  from gate [where authorization = None and hdr = "''Bearer garbage''"] bad
  have 1: "protected env0 2000 None get_my store0 =
             (respond 401 (JObj [(''message'', JStr ''Missing token'')]), store0)"
    and 3: "protected env0 2000 (Some ''Bearer garbage'') get_my store0 =
             (respond 403 (JObj [(''message'', JStr ''Invalid or expired token'')]), store0)"
    by (simp_all add: startsWith_def)
  from gate [where authorization = "Some ''Basic dTE6cHc=''"
               and hdr = "''Bearer u1|alice@example.com|1000|4600|terc3su14600''"
               and user = alice] ok
  have 2: "protected env0 2000 (Some ''Basic dTE6cHc='') get_my store0 =
             (respond 401 (JObj [(''message'', JStr ''Missing token'')]), store0)"
    and 4: "protected env0 2000 (Some ''Bearer u1|alice@example.com|1000|4600|terc3su14600'')
              get_my store0 = get_my alice store0"
    by (simp_all add: startsWith_def)
  from 1 2 3 4 show ?thesis by simp
qed

section \<open>Login\<close>

text \<open>
  C4. A login request with both fields present fails in the same way for an email no
  user has and for an email one user has with a password that does not match the stored
  hash: each answer is HTTP 401 with the body {error: "AuthError", message: "Invalid
  email or password"}, so the two answers are equal.
\<close>

theorem login_failures_indistinguishable:
  "\<not> falsy (l_email b1) \<and> \<not> falsy (l_password b1) \<and> outage st1 Users Select = None \<and>
   (\<forall>u \<in> set (users st1). u_email u \<noteq> val (l_email b1)) \<and>
   \<not> falsy (l_email b2) \<and> \<not> falsy (l_password b2) \<and> outage st2 Users Select = None \<and>
   filter (\<lambda>u. u_email u = val (l_email b2)) (users st2) = [user] \<and>
   \<not> bcrypt_compare e (val (l_password b2)) (u_password user) \<longrightarrow>
     fst (loginHandler e now1 b1 st1) =
       respond 401 (JObj [(''error'', JStr ''AuthError''),
                          (''message'', JStr ''Invalid email or password'')]) \<and>
     fst (loginHandler e now2 b2 st2) = fst (loginHandler e now1 b1 st1)"
proof (intro impI, elim conjE)
  assume a: "\<not> falsy (l_email b1)" "\<not> falsy (l_password b1)" "outage st1 Users Select = None"
    "\<forall>u \<in> set (users st1). u_email u \<noteq> val (l_email b1)"
  assume b: "\<not> falsy (l_email b2)" "\<not> falsy (l_password b2)" "outage st2 Users Select = None"
    "filter (\<lambda>u. u_email u = val (l_email b2)) (users st2) = [user]"
    "\<not> bcrypt_compare e (val (l_password b2)) (u_password user)"
  from a(4) have none: "filter (\<lambda>u. u_email u = val (l_email b1)) (users st1) = []"
    by (simp add: filter_empty_conv)
  have unknown: "fst (loginHandler e now1 b1 st1) =
       respond 401 (JObj [(''error'', JStr ''AuthError''),
                          (''message'', JStr ''Invalid email or password'')])"
    using a(1-3) none by (simp add: loginHandler_def select_where_ok maybeSingle_simps)
  have mismatch: "fst (loginHandler e now2 b2 st2) =
       respond 401 (JObj [(''error'', JStr ''AuthError''),
                          (''message'', JStr ''Invalid email or password'')])"
    using b by (simp add: loginHandler_def select_where_ok maybeSingle_simps)
  from unknown mismatch
  show "fst (loginHandler e now1 b1 st1) =
       respond 401 (JObj [(''error'', JStr ''AuthError''),
                          (''message'', JStr ''Invalid email or password'')]) \<and>
     fst (loginHandler e now2 b2 st2) = fst (loginHandler e now1 b1 st1)"
    by simp
qed

theorem login_failures_indistinguishable_witness:
  "fst (loginHandler env0 1000
         \<lparr>l_email = Some ''nobody@example.com'', l_password = Some ''alice1''\<rparr> store0) =
     respond 401 (JObj [(''error'', JStr ''AuthError''),
                        (''message'', JStr ''Invalid email or password'')]) \<and>
   fst (loginHandler env0 1000
         \<lparr>l_email = Some ''alice@example.com'', l_password = Some ''wrong''\<rparr> store0) =
   fst (loginHandler env0 1000
         \<lparr>l_email = Some ''nobody@example.com'', l_password = Some ''alice1''\<rparr> store0)"
  using login_failures_indistinguishable
    [where ?b1.0 = "\<lparr>l_email = Some ''nobody@example.com'', l_password = Some ''alice1''\<rparr>"
       and ?st1.0 = store0
       and ?b2.0 = "\<lparr>l_email = Some ''alice@example.com'', l_password = Some ''wrong''\<rparr>"
       and ?st2.0 = store0 and user = "hd (users store0)" and e = env0
       and ?now1.0 = 1000 and ?now2.0 = 1000]
  by (simp add: store0_def env0_fields)

section \<open>Application status\<close>

text \<open>
  C5. A status update whose body status is neither "accepted" nor "rejected" (absent
  included) is answered 400 "Invalid status", and the store is exactly as before: no
  query was sent (its query record is unchanged) and no application was changed.
\<close>

theorem invalid_status_rejected_first:
  "status \<notin> set [Some ''accepted'', Some ''rejected''] \<Longrightarrow>
   patch_status requester appId status st =
     (respond 400 (JObj [(''message'', JStr ''Invalid status'')]), st)"
  by (simp add: patch_status_def)

theorem invalid_status_rejected_first_witness:
  "patch_status alice ''a1'' (Some ''maybe'') store0 =
     (respond 400 (JObj [(''message'', JStr ''Invalid status'')]), store0) \<and>
   patch_status alice ''a1'' None store0 =
     (respond 400 (JObj [(''message'', JStr ''Invalid status'')]), store0)"
  using invalid_status_rejected_first [of "Some ''maybe''" alice "''a1''" store0]
    invalid_status_rejected_first [of None alice "''a1''" store0]
  by simp

section \<open>Ownership of a tender's applications\<close>

lemma get_applications_outsider:
  assumes "\<forall>t \<in> set (tenders st). t_id t = tender_id \<longrightarrow> t_creator_id t \<noteq> userId requester"
  shows "fst (get_applications requester tender_id st) =
           respond 403 (JObj [(''message'', JStr ''Tender not found or unauthorized'')]) \<or>
         fst (get_applications requester tender_id st) =
           respond 403 (JObj [(''message'', JStr ''Access denied'')])"
proof (cases "outage st Tenders Select")
  case (Some err)
  then show ?thesis
    by (simp add: get_applications_def select_where_fail maybeSingle_simps)
next
  case None
  show ?thesis
  proof (cases "filter (\<lambda>t. t_id t = tender_id) (tenders st)")
    case Nil
    with None show ?thesis
      by (simp add: get_applications_def select_where_ok maybeSingle_simps)
  next
    case (Cons t ts)
    then have "t \<in> set (filter (\<lambda>t. t_id t = tender_id) (tenders st))"
      by simp
    then have other: "t_creator_id t \<noteq> userId requester"
      using assms by auto
    show ?thesis
    proof (cases ts)
      case Nil
      with None Cons other show ?thesis
        by (simp add: get_applications_def select_where_ok maybeSingle_simps)
    next
      case (Cons t' ts')
      with None \<open>filter _ _ = t # ts\<close> show ?thesis
        by (simp add: get_applications_def select_where_ok maybeSingle_simps)
    qed
  qed
qed

lemma patch_status_no_application:
  assumes "status \<in> set [Some ''accepted'', Some ''rejected'']"
      and "\<forall>a \<in> set (applications st). a_id a \<noteq> appId"
  shows "fst (patch_status requester appId status st) =
           respond 404 (JObj [(''message'', JStr ''Application not found'')])"
    and "applications (snd (patch_status requester appId status st)) = applications st"
proof -
  from assms(2) have none: "filter (\<lambda>a. a_id a = appId) (applications st) = []"
    by (simp add: filter_empty_conv)
  show "fst (patch_status requester appId status st) =
           respond 404 (JObj [(''message'', JStr ''Application not found'')])"
    using assms(1) none
    by (cases "outage st Applications Select")
       (simp_all add: patch_status_def select_where_fail select_where_ok maybeSingle_simps)
  show "applications (snd (patch_status requester appId status st)) = applications st"
    using assms(1) none
    by (cases "outage st Applications Select")
       (simp_all add: patch_status_def select_where_fail select_where_ok maybeSingle_simps)
qed

lemma patch_status_outsider:
  assumes "status \<in> set [Some ''accepted'', Some ''rejected'']"
      and "outage st Applications Select = None"
      and "filter (\<lambda>a. a_id a = appId) (applications st) = [app]"
      and "\<forall>t \<in> set (tenders st). t_id t = a_tender_id app \<longrightarrow> t_creator_id t \<noteq> userId requester"
  shows "fst (patch_status requester appId status st) =
           respond 403 (JObj [(''message'', JStr ''Unauthorized'')]) \<and>
         applications (snd (patch_status requester appId status st)) = applications st"
proof (cases "outage st Tenders Select")
  case (Some err)
  with assms(1-3) show ?thesis
    by (simp add: patch_status_def select_where_fail select_where_ok maybeSingle_simps)
next
  case None
  show ?thesis
  proof (cases "filter (\<lambda>t. t_id t = a_tender_id app) (tenders st)")
    case Nil
    with None assms(1-3) show ?thesis
      by (simp add: patch_status_def select_where_ok maybeSingle_simps)
  next
    case (Cons t ts)
    then have "t \<in> set (filter (\<lambda>t. t_id t = a_tender_id app) (tenders st))"
      by simp
    then have other: "t_creator_id t \<noteq> userId requester"
      using assms(4) by auto
    show ?thesis
    proof (cases ts)
      case Nil
      with None Cons other assms(1-3) show ?thesis
        by (simp add: patch_status_def select_where_ok maybeSingle_simps)
    next
      case (Cons t' ts')
      with None \<open>filter _ _ = t # ts\<close> assms(1-3) show ?thesis
        by (simp add: patch_status_def select_where_ok maybeSingle_simps)
    qed
  qed
qed

text \<open>
  C1, as the code has it. For a caller who is not the creator of tender X (no tender
  with X's id in the store has the caller as creator, which includes that X is not in
  the store): listing the applications on X is answered 403, whatever the store does;
  a status update to "accepted" or "rejected" of an application that is in the store
  and refers to X is answered 403 and changes no application. A status update of an
  application that is not in the store is answered 404, not 403.
\<close>

theorem outsider_is_refused:
  "((\<forall>t \<in> set (tenders st). t_id t = tender_id \<longrightarrow> t_creator_id t \<noteq> userId requester) \<longrightarrow>
      status_of (fst (get_applications requester tender_id st)) = Some 403) \<and>
   (status \<in> set [Some ''accepted'', Some ''rejected''] \<and>
    outage st Applications Select = None \<and>
    filter (\<lambda>a. a_id a = appId) (applications st) = [app] \<and>
    (\<forall>t \<in> set (tenders st). t_id t = a_tender_id app \<longrightarrow> t_creator_id t \<noteq> userId requester) \<longrightarrow>
      status_of (fst (patch_status requester appId status st)) = Some 403 \<and>
      applications (snd (patch_status requester appId status st)) = applications st) \<and>
   (status \<in> set [Some ''accepted'', Some ''rejected''] \<and>
    (\<forall>a \<in> set (applications st). a_id a \<noteq> missing) \<longrightarrow>
      status_of (fst (patch_status requester missing status st)) = Some 404 \<and>
      applications (snd (patch_status requester missing status st)) = applications st)"
proof (intro conjI impI)
  assume "\<forall>t \<in> set (tenders st). t_id t = tender_id \<longrightarrow> t_creator_id t \<noteq> userId requester"
  from get_applications_outsider [OF this]
  show "status_of (fst (get_applications requester tender_id st)) = Some 403"
    by auto
next
  assume h: "status \<in> set [Some ''accepted'', Some ''rejected''] \<and>
    outage st Applications Select = None \<and>
    filter (\<lambda>a. a_id a = appId) (applications st) = [app] \<and>
    (\<forall>t \<in> set (tenders st). t_id t = a_tender_id app \<longrightarrow> t_creator_id t \<noteq> userId requester)"
  then have r: "fst (patch_status requester appId status st) =
           respond 403 (JObj [(''message'', JStr ''Unauthorized'')]) \<and>
         applications (snd (patch_status requester appId status st)) = applications st"
    by (intro patch_status_outsider) blast+
  from r show "status_of (fst (patch_status requester appId status st)) = Some 403"
    by simp
  from r show "applications (snd (patch_status requester appId status st)) = applications st"
    by simp
next
  assume h: "status \<in> set [Some ''accepted'', Some ''rejected''] \<and>
    (\<forall>a \<in> set (applications st). a_id a \<noteq> missing)"
  then show "status_of (fst (patch_status requester missing status st)) = Some 404"
    by (simp add: patch_status_no_application(1) del: set_simps)
  from h show "applications (snd (patch_status requester missing status st)) = applications st"
    by (intro patch_status_no_application(2)) blast+
qed

theorem outsider_is_refused_witness:
  "status_of (fst (get_applications bob ''t1'' store0)) = Some 403 \<and>
   status_of (fst (get_applications bob ''t9'' store0)) = Some 403 \<and>
   status_of (fst (patch_status bob ''a1'' (Some ''accepted'') store0)) = Some 403 \<and>
   applications (snd (patch_status bob ''a1'' (Some ''accepted'') store0)) = applications store0 \<and>
   status_of (fst (patch_status bob ''a9'' (Some ''accepted'') store0)) = Some 404"
proof -
  note refused = outsider_is_refused [where st = store0 and requester = bob
                   and status = "Some ''accepted''" and appId = "''a1''"
                   and app = "hd (applications store0)" and missing = "''a9''"]
  from refused [where tender_id = "''t1''"]
  have 1: "status_of (fst (get_applications bob ''t1'' store0)) = Some 403"
    and 3: "status_of (fst (patch_status bob ''a1'' (Some ''accepted'') store0)) = Some 403"
    and 4: "applications (snd (patch_status bob ''a1'' (Some ''accepted'') store0)) =
              applications store0"
    and 5: "status_of (fst (patch_status bob ''a9'' (Some ''accepted'') store0)) = Some 404"
    by (simp_all add: store0_def bob_def)
  from refused [where tender_id = "''t9''"]
  have 2: "status_of (fst (get_applications bob ''t9'' store0)) = Some 403"
    by (simp add: store0_def bob_def)
  from 1 2 3 4 5 show ?thesis by simp
qed

text \<open>
  C1, as the claim has it, fails: for the same outsider and the same requested status,
  the update of an application that is in the store is answered 403 and the update of
  one that is not is answered 404, so the status tells the two apart. And an outsider's
  update with a status outside {accepted, rejected} is answered 400, not 403.
\<close>

theorem status_update_reveals_missing_application:
  "status_of (fst (patch_status bob ''a1'' (Some ''accepted'') store0)) = Some 403 \<and>
   status_of (fst (patch_status bob ''a9'' (Some ''accepted'') store0)) = Some 404 \<and>
   status_of (fst (patch_status bob ''a1'' (Some ''maybe'') store0)) = Some 400 \<and>
   userId bob \<notin> set (map t_creator_id (filter (\<lambda>t. t_id t = ''t1'') (tenders store0)))"
  by (simp add: patch_status_def select_where_def maybeSingle_def store0_def bob_def)

section \<open>Listing and searching tenders\<close>

lemma descending_order_desc: "descending col (rev (sort_key col rs))"
proof -
  have "sorted (map col (sort_key col rs))"
    by (rule sorted_sort_key)
  then have "sorted_wrt (\<lambda>a b. col a \<le> col b) (sort_key col rs)"
    by (simp only: sorted_map)
  then show ?thesis
    by (simp add: descending_def sorted_wrt_rev)
qed

text \<open>
  C7. While the store answers the query, "my tenders" is HTTP 200 with exactly the
  stored tenders whose creator is the caller (as a multiset: each once per stored row,
  none of another user), and "others" is HTTP 200 with exactly the stored tenders whose
  creator is not the caller; each list is in descending order of created_at.
\<close>

theorem my_and_others_partition:
  "outage st Tenders Select = None \<longrightarrow>
     (\<exists>mine. fst (get_my requester st) =
               respond 200 (JObj [(''success'', JBool True),
                                  (''tenders'', JArr (map tender_json mine))]) \<and>
             mset mine = filter_mset (\<lambda>t. t_creator_id t = userId requester) (mset (tenders st)) \<and>
             descending t_created_at mine \<and>
             (\<forall>t \<in> set mine. t_creator_id t = userId requester)) \<and>
     (\<exists>theirs. fst (get_others requester st) =
                 respond 200 (JObj [(''tenders'', JArr (map tender_json theirs))]) \<and>
               mset theirs =
                 filter_mset (\<lambda>t. t_creator_id t \<noteq> userId requester) (mset (tenders st)) \<and>
               descending t_created_at theirs \<and>
               (\<forall>t \<in> set theirs. t_creator_id t \<noteq> userId requester))"
proof (intro impI conjI)
  assume up: "outage st Tenders Select = None"
  let ?mine = "rev (sort_key t_created_at
                 (filter (\<lambda>t. t_creator_id t = userId requester) (tenders st)))"
  have "fst (get_my requester st) =
          respond 200 (JObj [(''success'', JBool True),
                             (''tenders'', JArr (map tender_json ?mine))])"
    using up by (simp add: get_my_def select_where_ok order_desc_simps)
  moreover have "mset ?mine =
      filter_mset (\<lambda>t. t_creator_id t = userId requester) (mset (tenders st))"
    by simp
  moreover have "descending t_created_at ?mine"
    by (rule descending_order_desc)
  moreover have "\<forall>t \<in> set ?mine. t_creator_id t = userId requester"
    by simp
  ultimately show "\<exists>mine. fst (get_my requester st) =
               respond 200 (JObj [(''success'', JBool True),
                                  (''tenders'', JArr (map tender_json mine))]) \<and>
             mset mine = filter_mset (\<lambda>t. t_creator_id t = userId requester) (mset (tenders st)) \<and>
             descending t_created_at mine \<and>
             (\<forall>t \<in> set mine. t_creator_id t = userId requester)"
    by blast
  let ?theirs = "rev (sort_key t_created_at
                   (filter (\<lambda>t. t_creator_id t \<noteq> userId requester) (tenders st)))"
  have "fst (get_others requester st) =
          respond 200 (JObj [(''tenders'', JArr (map tender_json ?theirs))])"
    using up by (simp add: get_others_def select_where_ok order_desc_simps)
  moreover have "mset ?theirs =
      filter_mset (\<lambda>t. t_creator_id t \<noteq> userId requester) (mset (tenders st))"
    by simp
  moreover have "descending t_created_at ?theirs"
    by (rule descending_order_desc)
  moreover have "\<forall>t \<in> set ?theirs. t_creator_id t \<noteq> userId requester"
    by simp
  ultimately show "\<exists>theirs. fst (get_others requester st) =
                 respond 200 (JObj [(''tenders'', JArr (map tender_json theirs))]) \<and>
               mset theirs =
                 filter_mset (\<lambda>t. t_creator_id t \<noteq> userId requester) (mset (tenders st)) \<and>
               descending t_created_at theirs \<and>
               (\<forall>t \<in> set theirs. t_creator_id t \<noteq> userId requester)"
    by blast
qed

theorem my_and_others_partition_witness:
  "(\<exists>mine. fst (get_my alice store0) =
             respond 200 (JObj [(''success'', JBool True),
                                (''tenders'', JArr (map tender_json mine))]) \<and>
           mset mine = filter_mset (\<lambda>t. t_creator_id t = ''u1'') (mset (tenders store0)) \<and>
           descending t_created_at mine) \<and>
   (\<exists>theirs. fst (get_others alice store0) =
               respond 200 (JObj [(''tenders'', JArr (map tender_json theirs))]) \<and>
             mset theirs = filter_mset (\<lambda>t. t_creator_id t \<noteq> ''u1'') (mset (tenders store0)) \<and>
             descending t_created_at theirs)"
proof -
  have up: "outage store0 Tenders Select = None"
    by (simp add: store0_fields)
  have who: "userId alice = ''u1''"
    by (simp add: alice_def)
  from my_and_others_partition [of store0 alice] up
  show ?thesis
    unfolding who by blast
qed


lemma search_without_query:
  "falsy (map_option (toLowerCase e) q) \<Longrightarrow>
   get_search e requester q st =
     (respond 400 (JObj [(''message'', JStr ''Search query is required'')]), st)"
  by (simp add: get_search_def)

lemma comma_query_is_split:
  "split CHR '','' (''title.ilike.%'' @ ''a,b'' @ ''%,description.ilike.%'' @ ''a,b'' @ ''%'') =
     [''title.ilike.%a'', ''b%'', ''description.ilike.%a'', ''b%'']"
  by simp

lemma search_comma_fails:
  assumes "toLowerCase e ''a,b'' = ''a,b''"
      and "outage st Tenders Select = None"
      and "condition st ''b%'' = None"
  shows "get_search e requester (Some ''a,b'') st =
           (respond 500 (JObj [(''message'', JStr (message (malformed st)))]),
            touch st Tenders Select)"
proof -
  have "or_filter st
          (''title.ilike.%'' @ ''a,b'' @ ''%,description.ilike.%'' @ ''a,b'' @ ''%'') =
        Inl (malformed st)"
    unfolding or_filter_def comma_query_is_split using assms(3) by simp
  then have "select_or st (\<lambda>t. t_creator_id t \<noteq> userId requester)
               (''title.ilike.%'' @ ''a,b'' @ ''%,description.ilike.%'' @ ''a,b'' @ ''%'') =
             (Inl (malformed st), touch st Tenders Select)"
    using assms(2) by (simp add: select_or_def)
  then show ?thesis
    using assms(1) by (simp add: get_search_def order_desc_simps)
qed

lemma sample_conditions:
  "sample_condition ''b%'' = None"
  "sample_condition ''title.ilike.%gutters%'' =
     Some (\<lambda>r. like ''%gutters%'' (map ascii_lower (t_title r)))"
  "sample_condition ''description.ilike.%gutters%'' =
     Some (\<lambda>r. like ''%gutters%'' (map ascii_lower (t_description r)))"
  by (simp_all add: sample_condition_def startsWith_def ascii_lower_def)

lemma store_comma_fields:
  "outage store_comma tb opn = None"
  "condition store_comma = sample_condition"
  "malformed store_comma = Thrown False ''failed to parse logic tree''"
  by (simp_all add: store_comma_def store0_def)

text \<open>
  C8 fails on the code for a query string with a comma in it. Bob has a tender titled
  "A,B gutters"; Alice searches for "a,b", which that title contains whatever the case.
  The handler writes the query into the filter as it is, so the filter it sends falls
  into four parts at its commas, and the part "b%" is no condition: the store answers
  with an error and the search is answered 500, not with Bob's tender. The same tender
  is what the search for "GUTTERS" returns.
\<close>

theorem search_breaks_on_comma:
  "t_title (last (tenders store_comma)) = ''A,B gutters'' \<and>
   t_creator_id (last (tenders store_comma)) = ''u2'' \<and>
   userId alice = ''u1'' \<and>
   includes_str (toLowerCase env0 ''A,B gutters'') (toLowerCase env0 ''a,b'') \<and>
   split CHR '','' (''title.ilike.%'' @ toLowerCase env0 ''a,b'' @ ''%,description.ilike.%'' @
                    toLowerCase env0 ''a,b'' @ ''%'') =
     [''title.ilike.%a'', ''b%'', ''description.ilike.%a'', ''b%''] \<and>
   fst (get_search env0 alice (Some ''a,b'') store_comma) =
     respond 500 (JObj [(''message'', JStr ''failed to parse logic tree'')]) \<and>
   fst (get_search env0 alice (Some ''GUTTERS'') store_comma) =
     respond 200 (JObj [(''tenders'', JArr [search_json (last (tenders store_comma))])])"
proof -
  have lowered: "toLowerCase env0 ''a,b'' = ''a,b''"
    "toLowerCase env0 ''GUTTERS'' = ''gutters''"
    "toLowerCase env0 ''A,B gutters'' = ''a,b gutters''"
    by (simp_all add: env0_fields ascii_lower_def)
  have rows: "t_title (last (tenders store_comma)) = ''A,B gutters''"
    "t_creator_id (last (tenders store_comma)) = ''u2''" "userId alice = ''u1''"
    by (simp_all add: store_comma_def alice_def)
  have contained: "includes_str (toLowerCase env0 ''A,B gutters'') (toLowerCase env0 ''a,b'')"
    unfolding lowered by simp
  have parts: "split CHR '','' (''title.ilike.%'' @ toLowerCase env0 ''a,b'' @
                    ''%,description.ilike.%'' @ toLowerCase env0 ''a,b'' @ ''%'') =
     [''title.ilike.%a'', ''b%'', ''description.ilike.%a'', ''b%'']"
    unfolding lowered by (rule comma_query_is_split)
  have broken: "fst (get_search env0 alice (Some ''a,b'') store_comma) =
     respond 500 (JObj [(''message'', JStr ''failed to parse logic tree'')])"
    using search_comma_fails [of env0 store_comma alice]
    by (simp add: lowered store_comma_fields sample_conditions)
  have "or_filter store_comma
          (''title.ilike.%'' @ ''gutters'' @ ''%,description.ilike.%'' @ ''gutters'' @ ''%'') =
        Inr (\<lambda>r. like ''%gutters%'' (map ascii_lower (t_title r)) \<or>
                 like ''%gutters%'' (map ascii_lower (t_description r)))"
    by (simp add: or_filter_def store_comma_fields sample_conditions)
  then have "select_or store_comma (\<lambda>t. t_creator_id t \<noteq> userId alice)
               (''title.ilike.%'' @ ''gutters'' @ ''%,description.ilike.%'' @ ''gutters'' @ ''%'') =
             (Inr [last (tenders store_comma)], touch store_comma Tenders Select)"
    by (simp add: select_or_def store_comma_fields)
       (simp add: store_comma_def store0_def alice_def ascii_lower_def)
  then have found: "fst (get_search env0 alice (Some ''GUTTERS'') store_comma) =
     respond 200 (JObj [(''tenders'', JArr [search_json (last (tenders store_comma))])])"
    by (simp add: get_search_def lowered order_desc_simps search_filter_def
          optional_includes_def)
       (simp add: store_comma_def env0_fields ascii_lower_def)
  from rows contained parts broken found show ?thesis
    by simp
qed

section \<open>Signup\<close>

lemma insert_user_ok:
  "outage st Users Insert = None \<Longrightarrow>
   insert_user st name mail password company industry description logo =
     (Inr \<lparr>u_id = mk_id st (serial st), u_name = name, u_email = mail, u_password = password,
            u_company_name = company, u_industry = industry,
            u_industry_description = description, u_logo = logo\<rparr>,
      touch (st\<lparr>users := users st @
               [\<lparr>u_id = mk_id st (serial st), u_name = name, u_email = mail,
                 u_password = password, u_company_name = company, u_industry = industry,
                 u_industry_description = description, u_logo = logo\<rparr>],
               serial := Suc (serial st)\<rparr>) Users Insert)"
  by (simp add: insert_user_def Let_def)

lemma insert_user_fail:
  "outage st Users Insert = Some err \<Longrightarrow>
   insert_user st name mail password company industry description logo =
     (Inl err, touch st Users Insert)"
  by (simp add: insert_user_def)

lemma upload_ok:
  "outage st Logos Upload = None \<Longrightarrow>
   upload st path content =
     (None, touch (st\<lparr>objects := objects st @ [(path, content)]\<rparr>) Logos Upload)"
  by (simp add: upload_def)

lemma upload_fail:
  "outage st Logos Upload = Some err \<Longrightarrow>
   upload st path content = (Some err, touch st Logos Upload)"
  by (simp add: upload_def)

lemma filter_unique:
  "distinct (map f xs) \<Longrightarrow> x \<in> set xs \<Longrightarrow> filter (\<lambda>y. f y = f x) xs = [x]"
proof (induction xs)
  case Nil
  then show ?case by simp
next
  case (Cons a xs)
  show ?case
  proof (cases "a = x")
    case True
    with Cons.prems have "\<forall>y \<in> set xs. f y \<noteq> f x"
      by (auto simp: image_iff)
    then have "filter (\<lambda>y. f y = f x) xs = []"
      by (simp add: filter_empty_conv)
    with True show ?thesis by simp
  next
    case False
    with Cons.prems have "x \<in> set xs" and "f a \<noteq> f x"
      by (auto simp: image_iff)
    with Cons show ?thesis by simp
  qed
qed

lemma signup_missing_field:
  "falsy (s_name b) \<or> falsy (s_email b) \<or> falsy (s_password b) \<or> falsy (s_company_name b) \<or>
   falsy (s_industry b) \<or> falsy (s_industry_description b) \<Longrightarrow>
   signupHandler e now_ms b req_file st =
     (respond 400 (JObj [(''error'', JStr ''ValidationError''),
                         (''message'', JStr ''All fields are required'')]), st)"
  by (simp add: signupHandler_def)

lemma signup_duplicate:
  assumes "\<not> falsy (s_name b)" "\<not> falsy (s_email b)" "\<not> falsy (s_password b)"
    "\<not> falsy (s_company_name b)" "\<not> falsy (s_industry b)" "\<not> falsy (s_industry_description b)"
    and "outage st Users Select = None"
    and "distinct (map u_email (users st))"
    and "u \<in> set (users st)" and "u_email u = val (s_email b)"
  shows "signupHandler e now_ms b req_file st =
           (respond 409 (JObj [(''error'', JStr ''UserExistsError''),
                               (''message'', JStr ''User with this email already exists'')]),
            touch st Users Select)"
proof -
  from filter_unique [OF assms(8,9)] assms(10)
  have "filter (\<lambda>y. u_email y = val (s_email b)) (users st) = [u]"
    by simp
  with assms(1-7) show ?thesis
    by (simp add: signupHandler_def select_where_ok maybeSingle_simps)
qed

lemma signup_created:
  assumes "\<not> falsy (s_name b)" "\<not> falsy (s_email b)" "\<not> falsy (s_password b)"
    "\<not> falsy (s_company_name b)" "\<not> falsy (s_industry b)" "\<not> falsy (s_industry_description b)"
    and "outage st Users Select = None" "outage st Users Insert = None"
    "outage st Logos Upload = None"
    and "\<forall>u \<in> set (users st). u_email u \<noteq> val (s_email b)"
  shows "\<exists>logo.
           fst (signupHandler e now_ms b req_file st) =
             respond 201
               (JObj [(''success'', JBool True),
                      (''data'',
                       JObj [(''id'', JStr (mk_id st (serial st))),
                             (''name'', JStr (val (s_name b))),
                             (''email'', JStr (val (s_email b))),
                             (''company_name'', JStr (val (s_company_name b))),
                             (''industry'', JStr (val (s_industry b))),
                             (''industry_description'', JStr (val (s_industry_description b))),
                             (''logo'', JStr logo)])]) \<and>
           users (snd (signupHandler e now_ms b req_file st)) =
             users st @
             [\<lparr>u_id = mk_id st (serial st), u_name = val (s_name b), u_email = val (s_email b),
               u_password = bcrypt_hash e (val (s_password b)) 10,
               u_company_name = val (s_company_name b), u_industry = val (s_industry b),
               u_industry_description = val (s_industry_description b), u_logo = logo\<rparr>]"
proof -
  from assms(10) have none: "filter (\<lambda>u. u_email u = val (s_email b)) (users st) = []"
    by (simp add: filter_empty_conv)
  show ?thesis
  proof (cases req_file)
    case None
    with assms(1-9) none show ?thesis
      by (simp add: signupHandler_def select_where_ok maybeSingle_simps insert_user_ok)
  next
    case (Some f)
    with assms(1-9) none show ?thesis
      by (simp add: signupHandler_def select_where_ok maybeSingle_simps insert_user_ok
            upload_ok Let_def)
  qed
qed

lemma signup_hash_not_in_answer:
  "fst (signupHandler (e\<lparr>bcrypt_hash := h\<rparr>) now_ms b req_file st) =
   fst (signupHandler e now_ms b req_file st)"
  by (simp add: signupHandler_def select_where_def maybeSingle_def insert_user_def upload_def
        touch_def Let_def
      split: option.splits sum.splits list.splits prod.splits)

text \<open>
  C6. Signup is answered 400, with the store untouched, when any of name, email,
  password, company_name, industry, industry_description is absent or empty. With all
  six present, emails unique in the store and the store answering: it is answered 409
  and the users are as before when a user has the email; when no user has it, it is
  answered 201, the body's data being id, name, email, company_name, industry,
  industry_description and logo of the new user, while the password hash goes to the
  stored row only. Whatever the case, the answer does not depend on the hash function:
  no part of it is computed from the hash.
\<close>

theorem signup_outcomes:
  "(falsy (s_name b) \<or> falsy (s_email b) \<or> falsy (s_password b) \<or> falsy (s_company_name b) \<or>
    falsy (s_industry b) \<or> falsy (s_industry_description b) \<longrightarrow>
      signupHandler e now_ms b req_file st =
        (respond 400 (JObj [(''error'', JStr ''ValidationError''),
                            (''message'', JStr ''All fields are required'')]), st)) \<and>
   (\<not> falsy (s_name b) \<and> \<not> falsy (s_email b) \<and> \<not> falsy (s_password b) \<and>
    \<not> falsy (s_company_name b) \<and> \<not> falsy (s_industry b) \<and>
    \<not> falsy (s_industry_description b) \<and> outage st Users Select = None \<and>
    distinct (map u_email (users st)) \<and>
    (\<exists>u \<in> set (users st). u_email u = val (s_email b)) \<longrightarrow>
      status_of (fst (signupHandler e now_ms b req_file st)) = Some 409 \<and>
      users (snd (signupHandler e now_ms b req_file st)) = users st) \<and>
   (\<not> falsy (s_name b) \<and> \<not> falsy (s_email b) \<and> \<not> falsy (s_password b) \<and>
    \<not> falsy (s_company_name b) \<and> \<not> falsy (s_industry b) \<and>
    \<not> falsy (s_industry_description b) \<and> outage st Users Select = None \<and>
    outage st Users Insert = None \<and> outage st Logos Upload = None \<and>
    (\<forall>u \<in> set (users st). u_email u \<noteq> val (s_email b)) \<longrightarrow>
      (\<exists>logo.
         fst (signupHandler e now_ms b req_file st) =
           respond 201
             (JObj [(''success'', JBool True),
                    (''data'',
                     JObj [(''id'', JStr (mk_id st (serial st))),
                           (''name'', JStr (val (s_name b))),
                           (''email'', JStr (val (s_email b))),
                           (''company_name'', JStr (val (s_company_name b))),
                           (''industry'', JStr (val (s_industry b))),
                           (''industry_description'', JStr (val (s_industry_description b))),
                           (''logo'', JStr logo)])]) \<and>
         users (snd (signupHandler e now_ms b req_file st)) =
           users st @
           [\<lparr>u_id = mk_id st (serial st), u_name = val (s_name b), u_email = val (s_email b),
             u_password = bcrypt_hash e (val (s_password b)) 10,
             u_company_name = val (s_company_name b), u_industry = val (s_industry b),
             u_industry_description = val (s_industry_description b), u_logo = logo\<rparr>])) \<and>
   fst (signupHandler (e\<lparr>bcrypt_hash := h\<rparr>) now_ms b req_file st) =
     fst (signupHandler e now_ms b req_file st)"
proof (intro conjI impI)
  assume "falsy (s_name b) \<or> falsy (s_email b) \<or> falsy (s_password b) \<or>
    falsy (s_company_name b) \<or> falsy (s_industry b) \<or> falsy (s_industry_description b)"
  then show "signupHandler e now_ms b req_file st =
        (respond 400 (JObj [(''error'', JStr ''ValidationError''),
                            (''message'', JStr ''All fields are required'')]), st)"
    by (rule signup_missing_field)
next
  assume h: "\<not> falsy (s_name b) \<and> \<not> falsy (s_email b) \<and> \<not> falsy (s_password b) \<and>
    \<not> falsy (s_company_name b) \<and> \<not> falsy (s_industry b) \<and>
    \<not> falsy (s_industry_description b) \<and> outage st Users Select = None \<and>
    distinct (map u_email (users st)) \<and>
    (\<exists>u \<in> set (users st). u_email u = val (s_email b))"
  then obtain u where "u \<in> set (users st)" and "u_email u = val (s_email b)"
    by blast
  with h have "signupHandler e now_ms b req_file st =
           (respond 409 (JObj [(''error'', JStr ''UserExistsError''),
                               (''message'', JStr ''User with this email already exists'')]),
            touch st Users Select)"
    by (intro signup_duplicate) blast+
  then show "status_of (fst (signupHandler e now_ms b req_file st)) = Some 409"
    and "users (snd (signupHandler e now_ms b req_file st)) = users st"
    by simp_all
next
  assume "\<not> falsy (s_name b) \<and> \<not> falsy (s_email b) \<and> \<not> falsy (s_password b) \<and>
    \<not> falsy (s_company_name b) \<and> \<not> falsy (s_industry b) \<and>
    \<not> falsy (s_industry_description b) \<and> outage st Users Select = None \<and>
    outage st Users Insert = None \<and> outage st Logos Upload = None \<and>
    (\<forall>u \<in> set (users st). u_email u \<noteq> val (s_email b))"
  then show "\<exists>logo.
         fst (signupHandler e now_ms b req_file st) =
           respond 201
             (JObj [(''success'', JBool True),
                    (''data'',
                     JObj [(''id'', JStr (mk_id st (serial st))),
                           (''name'', JStr (val (s_name b))),
                           (''email'', JStr (val (s_email b))),
                           (''company_name'', JStr (val (s_company_name b))),
                           (''industry'', JStr (val (s_industry b))),
                           (''industry_description'', JStr (val (s_industry_description b))),
                           (''logo'', JStr logo)])]) \<and>
         users (snd (signupHandler e now_ms b req_file st)) =
           users st @
           [\<lparr>u_id = mk_id st (serial st), u_name = val (s_name b), u_email = val (s_email b),
             u_password = bcrypt_hash e (val (s_password b)) 10,
             u_company_name = val (s_company_name b), u_industry = val (s_industry b),
             u_industry_description = val (s_industry_description b), u_logo = logo\<rparr>]"
    by (intro signup_created) blast+
next
  show "fst (signupHandler (e\<lparr>bcrypt_hash := h\<rparr>) now_ms b req_file st) =
     fst (signupHandler e now_ms b req_file st)"
    by (rule signup_hash_not_in_answer)
qed

theorem signup_outcomes_witness:
  "signupHandler env0 1730 (carol_form\<lparr>s_industry := Some []\<rparr>) (Some carol_logo) store0 =
     (respond 400 (JObj [(''error'', JStr ''ValidationError''),
                         (''message'', JStr ''All fields are required'')]), store0) \<and>
   status_of (fst (signupHandler env0 1730 (carol_form\<lparr>s_email := Some ''bob@example.com''\<rparr>)
                     (Some carol_logo) store0)) = Some 409 \<and>
   users (snd (signupHandler env0 1730 (carol_form\<lparr>s_email := Some ''bob@example.com''\<rparr>)
                 (Some carol_logo) store0)) = users store0 \<and>
   status_of (fst (signupHandler env0 1730 carol_form (Some carol_logo) store0)) = Some 201 \<and>
   map u_email (users (snd (signupHandler env0 1730 carol_form (Some carol_logo) store0))) =
     [''alice@example.com'', ''bob@example.com'', ''carol@example.com'']"
proof -
  note outcomes = signup_outcomes [where e = env0 and now_ms = 1730 and st = store0
                    and req_file = "Some carol_logo"]
  from outcomes [where b = "carol_form\<lparr>s_industry := Some []\<rparr>"]
  have 1: "signupHandler env0 1730 (carol_form\<lparr>s_industry := Some []\<rparr>) (Some carol_logo) store0 =
     (respond 400 (JObj [(''error'', JStr ''ValidationError''),
                         (''message'', JStr ''All fields are required'')]), store0)"
    by simp
  from outcomes [where b = "carol_form\<lparr>s_email := Some ''bob@example.com''\<rparr>"]
  have 2: "status_of (fst (signupHandler env0 1730
                      (carol_form\<lparr>s_email := Some ''bob@example.com''\<rparr>)
                     (Some carol_logo) store0)) = Some 409 \<and>
   users (snd (signupHandler env0 1730 (carol_form\<lparr>s_email := Some ''bob@example.com''\<rparr>)
                 (Some carol_logo) store0)) = users store0"
    by (simp add: carol_form_def store0_fields) (simp add: store0_def)
  from outcomes [where b = carol_form]
  obtain logo where
    "fst (signupHandler env0 1730 carol_form (Some carol_logo) store0) =
       respond 201
         (JObj [(''success'', JBool True),
                (''data'',
                 JObj [(''id'', JStr (mk_id store0 (serial store0))),
                       (''name'', JStr (val (s_name carol_form))),
                       (''email'', JStr (val (s_email carol_form))),
                       (''company_name'', JStr (val (s_company_name carol_form))),
                       (''industry'', JStr (val (s_industry carol_form))),
                       (''industry_description'', JStr (val (s_industry_description carol_form))),
                       (''logo'', JStr logo)])])"
    and "users (snd (signupHandler env0 1730 carol_form (Some carol_logo) store0)) =
       users store0 @
       [\<lparr>u_id = mk_id store0 (serial store0), u_name = val (s_name carol_form),
         u_email = val (s_email carol_form),
         u_password = bcrypt_hash env0 (val (s_password carol_form)) 10,
         u_company_name = val (s_company_name carol_form),
         u_industry = val (s_industry carol_form),
         u_industry_description = val (s_industry_description carol_form), u_logo = logo\<rparr>]"
    by (simp add: carol_form_def store0_fields) (auto simp add: store0_def)
  then have 3: "status_of (fst (signupHandler env0 1730 carol_form (Some carol_logo) store0)) =
       Some 201"
    and 4: "map u_email (users (snd (signupHandler env0 1730 carol_form (Some carol_logo) store0))) =
       [''alice@example.com'', ''bob@example.com'', ''carol@example.com'']"
    by (simp_all add: store0_fields carol_form_def)
  from 1 2 3 4 show ?thesis by simp
qed


section \<open>The lifetime of a token\<close>

lemma login_success_token:
  assumes "fst (loginHandler e T b st) =
             respond 200 (JObj [(''success'', JBool True), (''token'', JStr tok)])"
  shows "\<exists>u \<in> set (users st).
           u_email u = val (l_email b) \<and>
           tok = jwt_sign e T \<lparr>userId = u_id u, email = u_email u\<rparr> (JWT_SECRET e) one_hour"
proof (cases "falsy (l_email b) \<or> falsy (l_password b)")
  case True
  with assms show ?thesis
    by (simp add: loginHandler_def respond_def)
next
  case present: False
  show ?thesis
  proof (cases "outage st Users Select")
    case (Some err)
    with present assms show ?thesis
      by (simp add: loginHandler_def select_where_fail maybeSingle_simps login_catch_def
            respond_def split: if_splits)
  next
    case None
    show ?thesis
    proof (cases "filter (\<lambda>u. u_email u = val (l_email b)) (users st)")
      case Nil
      with present None assms show ?thesis
        by (simp add: loginHandler_def select_where_ok maybeSingle_simps respond_def)
    next
      case (Cons u us)
      then have "u \<in> set (filter (\<lambda>u. u_email u = val (l_email b)) (users st))"
        by simp
      then have u: "u \<in> set (users st)" "u_email u = val (l_email b)"
        by simp_all
      show ?thesis
      proof (cases us)
        case Nil
        with present None Cons assms
        have "tok = jwt_sign e T \<lparr>userId = u_id u, email = u_email u\<rparr> (JWT_SECRET e) one_hour"
          by (simp add: loginHandler_def select_where_ok maybeSingle_simps respond_def
                split: if_splits)
        with u show ?thesis by blast
      next
        case (Cons u' us')
        with present None \<open>filter _ _ = u # us\<close> assms show ?thesis
          by (simp add: loginHandler_def select_where_ok maybeSingle_simps login_catch_def
                respond_def split: if_splits)
      qed
    qed
  qed
qed

lemma verify_issued:
  assumes "readable e (mk_token e T u secret life)"
  shows "jwt_verify e t (Some (jwt_sign e T u secret life)) secret =
           (if t < T + life then Some u else None)"
proof -
  from assms have "dec e (enc e (mk_token e T u secret life)) = Some (mk_token e T u secret life)"
    by (simp add: readable_def)
  then show ?thesis
    by (simp add: jwt_verify_def jwt_sign_def) (simp add: mk_token_def)
qed

lemma verifyJWT_bearer:
  assumes "CHR '' '' \<notin> set tok"
  shows "verifyJWT e t (Some (''Bearer '' @ tok)) =
           (case jwt_verify e t (Some tok) (JWT_SECRET e) of
              Some decoded \<Rightarrow> Admitted decoded
            | None \<Rightarrow>
                Rejected (respond 403 (JObj [(''message'', JStr ''Invalid or expired token'')])))"
  using bearer_token [OF assms]
  by (simp add: verifyJWT_def startsWith_def)

text \<open>
  C3. A token that login issued at time T (seconds) for the user it found carries that
  user's {userId, email}; presented as "Bearer <token>" at any time before T + 1 hour
  it is accepted and the request's user is that same {userId, email}; at T + 1 hour or
  later it is rejected with 403. The token library's encoding is assumed to carry the
  tokens of the stored users faithfully.
\<close>

theorem token_valid_for_one_hour:
  "fst (loginHandler e T b st) =
     respond 200 (JObj [(''success'', JBool True), (''token'', JStr tok)]) \<and>
   (\<forall>u \<in> set (users st).
      readable e (mk_token e T \<lparr>userId = u_id u, email = u_email u\<rparr> (JWT_SECRET e) one_hour)) \<longrightarrow>
   (\<exists>u \<in> set (users st).
      u_email u = val (l_email b) \<and>
      (\<forall>t. t < T + 60 * 60 \<longrightarrow>
           verifyJWT e t (Some (''Bearer '' @ tok)) =
             Admitted \<lparr>userId = u_id u, email = u_email u\<rparr>) \<and>
      (\<forall>t. T + 60 * 60 \<le> t \<longrightarrow>
           verifyJWT e t (Some (''Bearer '' @ tok)) =
             Rejected (respond 403 (JObj [(''message'', JStr ''Invalid or expired token'')]))))"
proof (intro impI, elim conjE)
  assume issued: "fst (loginHandler e T b st) =
     respond 200 (JObj [(''success'', JBool True), (''token'', JStr tok)])"
  assume faithful: "\<forall>u \<in> set (users st).
      readable e (mk_token e T \<lparr>userId = u_id u, email = u_email u\<rparr> (JWT_SECRET e) one_hour)"
  from login_success_token [OF issued]
  obtain u where u: "u \<in> set (users st)" "u_email u = val (l_email b)"
    and tok: "tok = jwt_sign e T \<lparr>userId = u_id u, email = u_email u\<rparr> (JWT_SECRET e) one_hour"
    by blast
  let ?who = "\<lparr>userId = u_id u, email = u_email u\<rparr>"
  from faithful u(1) have r: "readable e (mk_token e T ?who (JWT_SECRET e) one_hour)"
    by blast
  then have nospace: "CHR '' '' \<notin> set tok"
    by (simp add: readable_def tok jwt_sign_def)
  have verdict: "jwt_verify e t (Some tok) (JWT_SECRET e) =
                   (if t < T + 60 * 60 then Some ?who else None)" for t
    using verify_issued [OF r, of t] by (simp add: tok one_hour_def)
  have early: "\<forall>t. t < T + 60 * 60 \<longrightarrow>
      verifyJWT e t (Some (''Bearer '' @ tok)) = Admitted ?who"
  proof (intro allI impI)
    fix t
    assume "t < T + 60 * 60"
    then have "jwt_verify e t (Some tok) (JWT_SECRET e) = Some ?who"
      by (simp add: verdict)
    with verifyJWT_bearer [OF nospace, of e t]
    show "verifyJWT e t (Some (''Bearer '' @ tok)) = Admitted ?who"
      by simp
  qed
  have late: "\<forall>t. T + 60 * 60 \<le> t \<longrightarrow>
      verifyJWT e t (Some (''Bearer '' @ tok)) =
        Rejected (respond 403 (JObj [(''message'', JStr ''Invalid or expired token'')]))"
  proof (intro allI impI)
    fix t
    assume "T + 60 * 60 \<le> t"
    then have "jwt_verify e t (Some tok) (JWT_SECRET e) = None"
      by (simp add: verdict)
    with verifyJWT_bearer [OF nospace, of e t]
    show "verifyJWT e t (Some (''Bearer '' @ tok)) =
        Rejected (respond 403 (JObj [(''message'', JStr ''Invalid or expired token'')]))"
      by simp
  qed
  from u early late
  show "\<exists>u \<in> set (users st).
      u_email u = val (l_email b) \<and>
      (\<forall>t. t < T + 60 * 60 \<longrightarrow>
           verifyJWT e t (Some (''Bearer '' @ tok)) =
             Admitted \<lparr>userId = u_id u, email = u_email u\<rparr>) \<and>
      (\<forall>t. T + 60 * 60 \<le> t \<longrightarrow>
           verifyJWT e t (Some (''Bearer '' @ tok)) =
             Rejected (respond 403 (JObj [(''message'', JStr ''Invalid or expired token'')])))"
    by blast
qed

theorem token_valid_for_one_hour_witness:
  "verifyJWT env0 (1000 + 59 * 60)
     (Some (''Bearer '' @ ''u1|alice@example.com|1000|4600|terc3su14600'')) = Admitted alice \<and>
   verifyJWT env0 (1000 + 61 * 60)
     (Some (''Bearer '' @ ''u1|alice@example.com|1000|4600|terc3su14600'')) =
     Rejected (respond 403 (JObj [(''message'', JStr ''Invalid or expired token'')]))"
proof -
  let ?b = "\<lparr>l_email = Some ''alice@example.com'', l_password = Some ''alice1''\<rparr>"
  let ?tok = "''u1|alice@example.com|1000|4600|terc3su14600''"
  have issued: "fst (loginHandler env0 1000 ?b store0) =
      respond 200 (JObj [(''success'', JBool True), (''token'', JStr ?tok)])"
    by (simp add: loginHandler_def select_where_def maybeSingle_def store0_def env0_fields
          jwt_sign_def mk_token_def one_hour_def sample_enc_def digits_samples)
  have faithful: "\<forall>u \<in> set (users store0).
      readable env0
        (mk_token env0 1000 \<lparr>userId = u_id u, email = u_email u\<rparr> (JWT_SECRET env0) one_hour)"
    by (simp add: store0_def readable_def mk_token_def env0_fields one_hour_def sample_enc_def
          sample_dec_def digit_val_def digits_samples)
  from token_valid_for_one_hour [where e = env0 and T = 1000 and b = ?b and st = store0
         and tok = ?tok] issued faithful
  obtain u where u: "u \<in> set (users store0)" "u_email u = val (l_email ?b)"
    and early: "\<forall>t. t < 1000 + 60 * 60 \<longrightarrow>
           verifyJWT env0 t (Some (''Bearer '' @ ?tok)) =
             Admitted \<lparr>userId = u_id u, email = u_email u\<rparr>"
    and late: "\<forall>t. 1000 + 60 * 60 \<le> t \<longrightarrow>
           verifyJWT env0 t (Some (''Bearer '' @ ?tok)) =
             Rejected (respond 403 (JObj [(''message'', JStr ''Invalid or expired token'')]))"
    by blast
  from u have who: "\<lparr>userId = u_id u, email = u_email u\<rparr> = alice"
    by (auto simp: store0_def alice_def)
  have "(1000::nat) + 59 * 60 < 1000 + 60 * 60" and "(1000::nat) + 60 * 60 \<le> 1000 + 61 * 60"
    by simp_all
  with early late who show ?thesis
    by metis
qed


section \<open>Failing store queries\<close>

lemma insert_tender_fail:
  "outage st Tenders Insert = Some err \<Longrightarrow>
   insert_tender st title description budget deadline creator =
     (Some err, touch st Tenders Insert)"
  by (simp add: insert_tender_def)

lemma insert_application_fail:
  "outage st Applications Insert = Some err \<Longrightarrow>
   insert_application st tender_id applicant_id proposal_text =
     (Some err, touch st Applications Insert)"
  by (simp add: insert_application_def)

lemma update_status_fail:
  "outage st Applications Update = Some err \<Longrightarrow>
   update_status st status appId = (Some err, touch st Applications Update)"
  by (simp add: update_status_def)

lemma status_of_signup_catch [simp]: "status_of (signup_catch err) = Some 500"
  by (simp add: signup_catch_def status_of_def)

lemma signup_lookup_fails:
  "filled b \<Longrightarrow> outage st Users Select = Some err \<Longrightarrow>
   status_of (fst (signupHandler e now_ms b req_file st)) = Some 500"
  by (simp add: filled_def signupHandler_def select_where_fail maybeSingle_simps)

lemma signup_upload_fails:
  assumes "filled b" "outage st Users Select = None"
    "\<forall>u \<in> set (users st). u_email u \<noteq> val (s_email b)"
    "outage st Logos Upload = Some err"
  shows "status_of (fst (signupHandler e now_ms b (Some f) st)) = Some 500"
proof -
  from assms(3) have "filter (\<lambda>u. u_email u = val (s_email b)) (users st) = []"
    by (simp add: filter_empty_conv)
  with assms(1,2,4) show ?thesis
    by (simp add: filled_def signupHandler_def select_where_ok maybeSingle_simps upload_fail
          Let_def)
qed

lemma signup_insert_fails:
  assumes "filled b" "outage st Users Select = None"
    "\<forall>u \<in> set (users st). u_email u \<noteq> val (s_email b)"
    "outage st Logos Upload = None" "outage st Users Insert = Some err"
  shows "status_of (fst (signupHandler e now_ms b req_file st)) = Some 500"
proof -
  from assms(3) have "filter (\<lambda>u. u_email u = val (s_email b)) (users st) = []"
    by (simp add: filter_empty_conv)
  with assms(1,2,4,5) show ?thesis
    by (cases req_file)
       (simp_all add: filled_def signupHandler_def select_where_ok maybeSingle_simps upload_ok
          insert_user_fail Let_def)
qed

lemma login_lookup_fails:
  assumes "\<not> falsy (l_email b)" "\<not> falsy (l_password b)" "outage st Users Select = Some err"
  shows "fst (loginHandler e now b st) =
           (if is_Error err
            then respond 500
                   (JObj ([(''error'', JStr ''ServerError''),
                           (''message'', JStr ''An unexpected error occurred'')] @
                          (if NODE_ENV e = Some ''development''
                           then [(''details'', JStr (message err))] else [])))
            else \<lparr>sent = None, passed = Some err\<rparr>)"
  using assms
  by (simp add: loginHandler_def select_where_fail maybeSingle_simps login_catch_def)

lemma me_lookup_fails:
  "outage st Users Select = Some err \<Longrightarrow> status_of (fst (meHandler requester st)) = Some 404"
  by (simp add: meHandler_def select_where_fail maybeSingle_simps)

lemma create_insert_fails:
  "tender_filled b \<Longrightarrow> outage st Tenders Insert = Some err \<Longrightarrow>
   status_of (fst (createTenderHandler requester b st)) = Some 500"
  by (simp add: tender_filled_def createTenderHandler_def insert_tender_fail)

lemma my_query_fails:
  "outage st Tenders Select = Some err \<Longrightarrow> status_of (fst (get_my requester st)) = Some 500"
  by (simp add: get_my_def select_where_fail order_desc_simps)

lemma others_query_fails:
  "outage st Tenders Select = Some err \<Longrightarrow> status_of (fst (get_others requester st)) = Some 500"
  by (simp add: get_others_def select_where_fail order_desc_simps)

lemma apply_insert_fails:
  "\<not> falsy proposal_text \<Longrightarrow> tender_id \<noteq> [] \<Longrightarrow> userId requester \<noteq> [] \<Longrightarrow>
   outage st Applications Insert = Some err \<Longrightarrow>
   status_of (fst (post_apply requester tender_id proposal_text st)) = Some 500"
  by (simp add: post_apply_def insert_application_fail)

lemma listing_lookup_fails:
  "outage st Tenders Select = Some err \<Longrightarrow>
   status_of (fst (get_applications requester tender_id st)) = Some 403"
  by (simp add: get_applications_def select_where_fail maybeSingle_simps)

lemma listing_query_fails:
  "outage st Tenders Select = None \<Longrightarrow>
   filter (\<lambda>t. t_id t = tender_id) (tenders st) = [t] \<Longrightarrow>
   t_creator_id t = userId requester \<Longrightarrow>
   outage st Applications Select = Some err \<Longrightarrow>
   status_of (fst (get_applications requester tender_id st)) = Some 500"
  by (simp add: get_applications_def select_where_ok select_where_fail maybeSingle_simps
        order_desc_simps)

lemma status_lookup_fails:
  "status \<in> set [Some ''accepted'', Some ''rejected''] \<Longrightarrow>
   outage st Applications Select = Some err \<Longrightarrow>
   status_of (fst (patch_status requester appId status st)) = Some 404"
  by (simp add: patch_status_def select_where_fail maybeSingle_simps)

lemma status_tender_lookup_fails:
  "status \<in> set [Some ''accepted'', Some ''rejected''] \<Longrightarrow>
   outage st Applications Select = None \<Longrightarrow>
   filter (\<lambda>a. a_id a = appId) (applications st) = [app] \<Longrightarrow>
   outage st Tenders Select = Some err \<Longrightarrow>
   status_of (fst (patch_status requester appId status st)) = Some 403"
  by (simp add: patch_status_def select_where_ok select_where_fail maybeSingle_simps)

lemma status_update_fails:
  "status \<in> set [Some ''accepted'', Some ''rejected''] \<Longrightarrow>
   outage st Applications Select = None \<Longrightarrow>
   filter (\<lambda>a. a_id a = appId) (applications st) = [app] \<Longrightarrow>
   outage st Tenders Select = None \<Longrightarrow>
   filter (\<lambda>t. t_id t = a_tender_id app) (tenders st) = [t] \<Longrightarrow>
   t_creator_id t = userId requester \<Longrightarrow>
   outage st Applications Update = Some err \<Longrightarrow>
   status_of (fst (patch_status requester appId status st)) = Some 500 \<and>
   applications (snd (patch_status requester appId status st)) = applications st"
  by (simp add: patch_status_def select_where_ok maybeSingle_simps update_status_fail)

lemma my_applications_query_fails:
  "outage st Applications Select = Some err \<Longrightarrow>
   status_of (fst (get_my_applications requester st)) = Some 500"
  by (simp add: get_my_applications_def select_where_fail order_desc_simps)

lemma my_with_applications_query_fails:
  "outage st Tenders Select = Some err \<Longrightarrow>
   status_of (fst (get_my_with_applications requester st)) = Some 500"
  by (simp add: get_my_with_applications_def select_where_fail order_desc_simps)

lemma search_query_fails:
  "\<not> falsy (map_option (toLowerCase e) q) \<Longrightarrow> outage st Tenders Select = Some err \<Longrightarrow>
   status_of (fst (get_search e requester q st)) = Some 500"
  by (simp add: get_search_def select_or_def order_desc_simps)

lemma failing_fields:
  "outage (failing tb opn) tb' opn' =
     (if tb' = tb \<and> opn' = opn then Some (Thrown True ''service unavailable'') else None)"
  "users (failing tb opn) = users store0"
  "tenders (failing tb opn) = tenders store0"
  "applications (failing tb opn) = applications store0"
  by (simp_all add: failing_def)

text \<open>
  C9, as the code has it. A store query that the service answers with an error is
  answered by the handler with an error status, never with a success. The status is 500
  for the queries of signup (lookup, logo upload, insert), Create Tender, "my tenders",
  "others", apply, "my applications", "my tenders with applications" and search, for the
  applications query of the applications listing, for the update of the status route,
  and for login's lookup when the error is an Error instance. It is 404 for the user
  lookup of /me and the application lookup of the status route, and 403 for the tender
  lookup of the applications listing and of the status route. Login hands an error that
  is not an Error instance to the framework with next(error) and sends nothing itself.
\<close>

theorem store_failure_statuses:
  "(filled form \<and> outage st Users Select = Some err \<longrightarrow>
      status_of (fst (signupHandler e now_ms form req_file st)) = Some 500) \<and>
   (filled form \<and> outage st Users Select = None \<and>
    (\<forall>u \<in> set (users st). u_email u \<noteq> val (s_email form)) \<and>
    outage st Logos Upload = Some err \<longrightarrow>
      status_of (fst (signupHandler e now_ms form (Some f) st)) = Some 500) \<and>
   (filled form \<and> outage st Users Select = None \<and>
    (\<forall>u \<in> set (users st). u_email u \<noteq> val (s_email form)) \<and>
    outage st Logos Upload = None \<and> outage st Users Insert = Some err \<longrightarrow>
      status_of (fst (signupHandler e now_ms form req_file st)) = Some 500) \<and>
   (\<not> falsy (l_email cred) \<and> \<not> falsy (l_password cred) \<and>
    outage st Users Select = Some err \<longrightarrow>
      (if is_Error err
       then status_of (fst (loginHandler e now cred st)) = Some 500
       else fst (loginHandler e now cred st) = \<lparr>sent = None, passed = Some err\<rparr>)) \<and>
   (outage st Users Select = Some err \<longrightarrow>
      status_of (fst (meHandler requester st)) = Some 404) \<and>
   (tender_filled draft \<and> outage st Tenders Insert = Some err \<longrightarrow>
      status_of (fst (createTenderHandler requester draft st)) = Some 500) \<and>
   (outage st Tenders Select = Some err \<longrightarrow>
      status_of (fst (get_my requester st)) = Some 500 \<and>
      status_of (fst (get_others requester st)) = Some 500 \<and>
      status_of (fst (get_my_with_applications requester st)) = Some 500 \<and>
      status_of (fst (get_applications requester tender_id st)) = Some 403) \<and>
   (\<not> falsy (map_option (toLowerCase e) q) \<and> outage st Tenders Select = Some err \<longrightarrow>
      status_of (fst (get_search e requester q st)) = Some 500) \<and>
   (\<not> falsy proposal_text \<and> tender_id \<noteq> [] \<and> userId requester \<noteq> [] \<and>
    outage st Applications Insert = Some err \<longrightarrow>
      status_of (fst (post_apply requester tender_id proposal_text st)) = Some 500) \<and>
   (outage st Tenders Select = None \<and>
    filter (\<lambda>t. t_id t = tender_id) (tenders st) = [t] \<and>
    t_creator_id t = userId requester \<and> outage st Applications Select = Some err \<longrightarrow>
      status_of (fst (get_applications requester tender_id st)) = Some 500) \<and>
   (outage st Applications Select = Some err \<longrightarrow>
      status_of (fst (get_my_applications requester st)) = Some 500) \<and>
   (status \<in> set [Some ''accepted'', Some ''rejected''] \<and>
    outage st Applications Select = Some err \<longrightarrow>
      status_of (fst (patch_status requester appId status st)) = Some 404) \<and>
   (status \<in> set [Some ''accepted'', Some ''rejected''] \<and>
    outage st Applications Select = None \<and>
    filter (\<lambda>a. a_id a = appId) (applications st) = [app] \<and>
    outage st Tenders Select = Some err \<longrightarrow>
      status_of (fst (patch_status requester appId status st)) = Some 403) \<and>
   (status \<in> set [Some ''accepted'', Some ''rejected''] \<and>
    outage st Applications Select = None \<and>
    filter (\<lambda>a. a_id a = appId) (applications st) = [app] \<and>
    outage st Tenders Select = None \<and>
    filter (\<lambda>t. t_id t = a_tender_id app) (tenders st) = [owned] \<and>
    t_creator_id owned = userId requester \<and>
    outage st Applications Update = Some err \<longrightarrow>
      status_of (fst (patch_status requester appId status st)) = Some 500 \<and>
      applications (snd (patch_status requester appId status st)) = applications st)"
proof -
  have signup_lookup: "filled form \<and> outage st Users Select = Some err \<longrightarrow>
      status_of (fst (signupHandler e now_ms form req_file st)) = Some 500"
    by (simp add: signup_lookup_fails)
  have signup_upload: "filled form \<and> outage st Users Select = None \<and>
    (\<forall>u \<in> set (users st). u_email u \<noteq> val (s_email form)) \<and>
    outage st Logos Upload = Some err \<longrightarrow>
      status_of (fst (signupHandler e now_ms form (Some f) st)) = Some 500"
    by (intro impI, elim conjE, rule signup_upload_fails)
  have signup_insert: "filled form \<and> outage st Users Select = None \<and>
    (\<forall>u \<in> set (users st). u_email u \<noteq> val (s_email form)) \<and>
    outage st Logos Upload = None \<and> outage st Users Insert = Some err \<longrightarrow>
      status_of (fst (signupHandler e now_ms form req_file st)) = Some 500"
    by (intro impI, elim conjE, rule signup_insert_fails)
  have login: "\<not> falsy (l_email cred) \<and> \<not> falsy (l_password cred) \<and>
    outage st Users Select = Some err \<longrightarrow>
      (if is_Error err
       then status_of (fst (loginHandler e now cred st)) = Some 500
       else fst (loginHandler e now cred st) = \<lparr>sent = None, passed = Some err\<rparr>)"
    by (simp add: login_lookup_fails)
  have me: "outage st Users Select = Some err \<longrightarrow>
      status_of (fst (meHandler requester st)) = Some 404"
    by (simp add: me_lookup_fails)
  have create: "tender_filled draft \<and> outage st Tenders Insert = Some err \<longrightarrow>
      status_of (fst (createTenderHandler requester draft st)) = Some 500"
    by (simp add: create_insert_fails)
  have tenders_select: "outage st Tenders Select = Some err \<longrightarrow>
      status_of (fst (get_my requester st)) = Some 500 \<and>
      status_of (fst (get_others requester st)) = Some 500 \<and>
      status_of (fst (get_my_with_applications requester st)) = Some 500 \<and>
      status_of (fst (get_applications requester tender_id st)) = Some 403"
    by (simp add: my_query_fails others_query_fails my_with_applications_query_fails
          listing_lookup_fails)
  have search: "\<not> falsy (map_option (toLowerCase e) q) \<and>
    outage st Tenders Select = Some err \<longrightarrow>
      status_of (fst (get_search e requester q st)) = Some 500"
    by (simp add: search_query_fails)
  have "apply": "\<not> falsy proposal_text \<and> tender_id \<noteq> [] \<and> userId requester \<noteq> [] \<and>
    outage st Applications Insert = Some err \<longrightarrow>
      status_of (fst (post_apply requester tender_id proposal_text st)) = Some 500"
    by (simp add: apply_insert_fails)
  have listing: "outage st Tenders Select = None \<and>
    filter (\<lambda>t. t_id t = tender_id) (tenders st) = [t] \<and>
    t_creator_id t = userId requester \<and> outage st Applications Select = Some err \<longrightarrow>
      status_of (fst (get_applications requester tender_id st)) = Some 500"
    by (intro impI, elim conjE, rule listing_query_fails)
  have mine: "outage st Applications Select = Some err \<longrightarrow>
      status_of (fst (get_my_applications requester st)) = Some 500"
    by (simp add: my_applications_query_fails)
  have status_lookup: "status \<in> set [Some ''accepted'', Some ''rejected''] \<and>
    outage st Applications Select = Some err \<longrightarrow>
      status_of (fst (patch_status requester appId status st)) = Some 404"
    by (intro impI, elim conjE, rule status_lookup_fails)
  have status_tender: "status \<in> set [Some ''accepted'', Some ''rejected''] \<and>
    outage st Applications Select = None \<and>
    filter (\<lambda>a. a_id a = appId) (applications st) = [app] \<and>
    outage st Tenders Select = Some err \<longrightarrow>
      status_of (fst (patch_status requester appId status st)) = Some 403"
    by (intro impI, elim conjE, rule status_tender_lookup_fails)
  have status_update: "status \<in> set [Some ''accepted'', Some ''rejected''] \<and>
    outage st Applications Select = None \<and>
    filter (\<lambda>a. a_id a = appId) (applications st) = [app] \<and>
    outage st Tenders Select = None \<and>
    filter (\<lambda>t. t_id t = a_tender_id app) (tenders st) = [owned] \<and>
    t_creator_id owned = userId requester \<and>
    outage st Applications Update = Some err \<longrightarrow>
      status_of (fst (patch_status requester appId status st)) = Some 500 \<and>
      applications (snd (patch_status requester appId status st)) = applications st"
    by (intro impI, elim conjE, rule status_update_fails)
  from signup_lookup signup_upload signup_insert login me create tenders_select search
    "apply" listing mine status_lookup status_tender status_update
  show ?thesis
    by (intro conjI)
qed

text \<open>
  C9, as the claim has it, fails: while the store fails, /me is answered 404 and the
  applications listing of the owner's own tender is answered 403, not 500.
\<close>

theorem store_failure_answered_404_and_403:
  "outage store_down Users Select \<noteq> None \<and> outage store_down Tenders Select \<noteq> None \<and>
   status_of (fst (meHandler alice store_down)) = Some 404 \<and>
   status_of (fst (get_applications alice ''t1'' store_down)) = Some 403"
  by (simp add: meHandler_def get_applications_def select_where_def maybeSingle_def
        store_down_def)

theorem store_failure_statuses_witness:
  "status_of (fst (signupHandler env0 1730 carol_form (Some carol_logo) (failing Users Select))) =
     Some 500 \<and>
   status_of (fst (signupHandler env0 1730 carol_form (Some carol_logo) (failing Logos Upload))) =
     Some 500 \<and>
   status_of (fst (signupHandler env0 1730 carol_form (Some carol_logo) (failing Users Insert))) =
     Some 500 \<and>
   status_of (fst (loginHandler env0 1000
                     \<lparr>l_email = Some ''alice@example.com'', l_password = Some ''alice1''\<rparr>
                     (failing Users Select))) = Some 500 \<and>
   fst (loginHandler env0 1000
          \<lparr>l_email = Some ''alice@example.com'', l_password = Some ''alice1''\<rparr>
          (store0\<lparr>outage := (\<lambda>tb opn. Some (Thrown False ''timeout''))\<rparr>)) =
     \<lparr>sent = None, passed = Some (Thrown False ''timeout'')\<rparr> \<and>
   status_of (fst (meHandler alice (failing Users Select))) = Some 404 \<and>
   status_of (fst (createTenderHandler alice roof_tender (failing Tenders Insert))) = Some 500 \<and>
   status_of (fst (get_my alice (failing Tenders Select))) = Some 500 \<and>
   status_of (fst (get_others alice (failing Tenders Select))) = Some 500 \<and>
   status_of (fst (get_my_with_applications alice (failing Tenders Select))) = Some 500 \<and>
   status_of (fst (get_applications alice ''t1'' (failing Tenders Select))) = Some 403 \<and>
   status_of (fst (get_search env0 alice (Some ''roof'') (failing Tenders Select))) = Some 500 \<and>
   status_of (fst (post_apply alice ''t1'' (Some ''P2'') (failing Applications Insert))) =
     Some 500 \<and>
   status_of (fst (get_applications alice ''t1'' (failing Applications Select))) = Some 500 \<and>
   status_of (fst (get_my_applications alice (failing Applications Select))) = Some 500 \<and>
   status_of (fst (patch_status alice ''a1'' (Some ''accepted'') (failing Applications Select))) =
     Some 404 \<and>
   status_of (fst (patch_status alice ''a1'' (Some ''accepted'') (failing Tenders Select))) =
     Some 403 \<and>
   status_of (fst (patch_status alice ''a1'' (Some ''accepted'') (failing Applications Update))) =
     Some 500"
proof -
  note statuses = store_failure_statuses
    [where e = env0 and now = 1000 and now_ms = 1730 and requester = alice
       and form = carol_form and f = carol_logo and req_file = "Some carol_logo"
       and cred = "\<lparr>l_email = Some ''alice@example.com'', l_password = Some ''alice1''\<rparr>"
       and draft = roof_tender and q = "Some ''roof''" and proposal_text = "Some ''P2''"
       and tender_id = "''t1''" and t = "hd (tenders store0)" and appId = "''a1''"
       and app = "hd (applications store0)" and owned = "hd (tenders store0)"
       and status = "Some ''accepted''"]
  note down = statuses [where err = "Thrown True ''service unavailable''"]
  note evaluated = failing_fields store0_def carol_form_def roof_tender_def alice_def
    filled_def tender_filled_def env0_fields
  from down [where st = "failing Users Select"]
  have 1: "status_of (fst (signupHandler env0 1730 carol_form (Some carol_logo)
                             (failing Users Select))) = Some 500"
    and 4: "status_of (fst (loginHandler env0 1000
                     \<lparr>l_email = Some ''alice@example.com'', l_password = Some ''alice1''\<rparr>
                     (failing Users Select))) = Some 500"
    and 6: "status_of (fst (meHandler alice (failing Users Select))) = Some 404"
    by (simp_all add: evaluated)
  from down [where st = "failing Logos Upload"]
  have 2: "status_of (fst (signupHandler env0 1730 carol_form (Some carol_logo)
                             (failing Logos Upload))) = Some 500"
    by (simp add: evaluated)
  from down [where st = "failing Users Insert"]
  have 3: "status_of (fst (signupHandler env0 1730 carol_form (Some carol_logo)
                             (failing Users Insert))) = Some 500"
    by (simp add: evaluated)
  from statuses [where err = "Thrown False ''timeout''"
         and st = "store0\<lparr>outage := (\<lambda>tb opn. Some (Thrown False ''timeout''))\<rparr>"]
  have 5: "fst (loginHandler env0 1000
          \<lparr>l_email = Some ''alice@example.com'', l_password = Some ''alice1''\<rparr>
          (store0\<lparr>outage := (\<lambda>tb opn. Some (Thrown False ''timeout''))\<rparr>)) =
     \<lparr>sent = None, passed = Some (Thrown False ''timeout'')\<rparr>"
    by simp
  from down [where st = "failing Tenders Insert"]
  have 7: "status_of (fst (createTenderHandler alice roof_tender (failing Tenders Insert))) =
             Some 500"
    by (simp add: evaluated)
  from down [where st = "failing Tenders Select"]
  have 8: "status_of (fst (get_my alice (failing Tenders Select))) = Some 500"
    and 9: "status_of (fst (get_others alice (failing Tenders Select))) = Some 500"
    and 10: "status_of (fst (get_my_with_applications alice (failing Tenders Select))) = Some 500"
    and 11: "status_of (fst (get_applications alice ''t1'' (failing Tenders Select))) = Some 403"
    and 12: "status_of (fst (get_search env0 alice (Some ''roof'') (failing Tenders Select))) =
               Some 500"
    and 17: "status_of (fst (patch_status alice ''a1'' (Some ''accepted'')
                               (failing Tenders Select))) = Some 403"
    by (simp_all add: evaluated)
  from down [where st = "failing Applications Insert"]
  have 13: "status_of (fst (post_apply alice ''t1'' (Some ''P2'')
                              (failing Applications Insert))) = Some 500"
    by (simp add: evaluated)
  from down [where st = "failing Applications Select"]
  have 14: "status_of (fst (get_applications alice ''t1'' (failing Applications Select))) =
              Some 500"
    and 15: "status_of (fst (get_my_applications alice (failing Applications Select))) =
               Some 500"
    and 16: "status_of (fst (patch_status alice ''a1'' (Some ''accepted'')
                               (failing Applications Select))) = Some 404"
    by (simp_all add: evaluated)
  from down [where st = "failing Applications Update"]
  have 18: "status_of (fst (patch_status alice ''a1'' (Some ''accepted'')
                              (failing Applications Update))) = Some 500"
    by (simp add: evaluated)
  from 1 2 3 4 5 6 7 8 9 10 11 12 13 14 15 16 17 18 show ?thesis
    by simp
qed

end
